theory Spec2Isabelle
  imports Main "HOL-Library.Word" "HOL-Library.Sublist" "HOL-Library.AList"
begin

chapter \<open>The model\<close>

section \<open>Python strings\<close>

text \<open>
  A Python \<^verbatim>\<open>str\<close> is a sequence of Unicode code points, so it is modelled as a list
  of natural numbers. ASCII literals are written as HOL strings and converted by
  \<open>pystr_of\<close>.
\<close>

type_synonym codepoint = nat
type_synonym pystr = "codepoint list"

definition pystr_of :: "string \<Rightarrow> pystr" where
  "pystr_of s = map of_char s"

text \<open>\<^verbatim>\<open>s.replace(old, new)\<close> for one-character \<open>old\<close> and \<open>new\<close>.\<close>

definition py_replace :: "codepoint \<Rightarrow> codepoint \<Rightarrow> pystr \<Rightarrow> pystr" where
  "py_replace old new s = map (\<lambda>c. if c = old then new else c) s"

text \<open>\<^verbatim>\<open>s.split(sep)\<close> for a one-character separator; the result is never empty.\<close>

fun py_split :: "codepoint \<Rightarrow> pystr \<Rightarrow> pystr list" where
  "py_split sep [] = [[]]"
| "py_split sep (c # cs) =
     (if c = sep then [] # py_split sep cs
      else (case py_split sep cs of
              p # ps \<Rightarrow> (c # p) # ps
            | [] \<Rightarrow> [[c]]))"

text \<open>
  The characters removed by \<^verbatim>\<open>str.strip()\<close> without argument: those for which
  \<^verbatim>\<open>str.isspace()\<close> holds.
\<close>

definition is_space :: "codepoint \<Rightarrow> bool" where
  "is_space c \<longleftrightarrow>
     (9 \<le> c \<and> c \<le> 13) \<or> (28 \<le> c \<and> c \<le> 32) \<or> c = 133 \<or> c = 160 \<or> c = 5760 \<or>
     (8192 \<le> c \<and> c \<le> 8202) \<or> c = 8232 \<or> c = 8233 \<or> c = 8239 \<or> c = 8287 \<or>
     c = 12288"

definition py_strip :: "pystr \<Rightarrow> pystr" where
  "py_strip s = rev (dropWhile is_space (rev (dropWhile is_space s)))"

text \<open>
  The class \<^verbatim>\<open>\w\<close> of the \<^verbatim>\<open>re\<close> module on \<^verbatim>\<open>str\<close> patterns: the underscore and
  every alphanumeric code point. On ASCII the class is written out. Beyond ASCII it is
  the Unicode database table behind \<^verbatim>\<open>str.isalnum\<close>, which is not part of the
  repository and is taken as the parameter \<open>W\<close>.
\<close>

definition is_word :: "(codepoint \<Rightarrow> bool) \<Rightarrow> codepoint \<Rightarrow> bool" where
  "is_word W c \<longleftrightarrow>
     (if c < 128
      then (48 \<le> c \<and> c \<le> 57) \<or> (65 \<le> c \<and> c \<le> 90) \<or> (97 \<le> c \<and> c \<le> 122) \<or> c = 95
      else W c)"

text \<open>
  The table restricted to the Latin-1 supplement (code points 128 to 255), where the
  alphanumerics are the ordinal indicators, the superscript digits, the micro sign,
  the vulgar fractions and the letters. It instantiates \<open>W\<close> in concrete evaluations.
\<close>

definition latin1_alnum :: "codepoint \<Rightarrow> bool" where
  "latin1_alnum c \<longleftrightarrow>
     c = 170 \<or> c = 178 \<or> c = 179 \<or> c = 181 \<or> c = 185 \<or> c = 186 \<or>
     (188 \<le> c \<and> c \<le> 190) \<or> (192 \<le> c \<and> c \<le> 214) \<or> (216 \<le> c \<and> c \<le> 246) \<or>
     (248 \<le> c \<and> c \<le> 255)"

section \<open>The name sanitizer\<close>

text \<open>
  \<^verbatim>\<open>DicomProcessor.sanitize_path_component\<close>:
  \<^verbatim>\<open>
  name = str(name).replace(':', '-').replace('/', '-')
  return re.sub(r'[^\w\-_. ]', '_', name).strip()
  \<close>
  The argument of the model is the string \<^verbatim>\<open>str(name)\<close>.
\<close>

definition keep_char :: "(codepoint \<Rightarrow> bool) \<Rightarrow> codepoint \<Rightarrow> bool" where
  "keep_char W c \<longleftrightarrow> is_word W c \<or> c = 45 \<or> c = 95 \<or> c = 46 \<or> c = 32"

definition re_sub_problematic :: "(codepoint \<Rightarrow> bool) \<Rightarrow> pystr \<Rightarrow> pystr" where
  "re_sub_problematic W s = map (\<lambda>c. if keep_char W c then c else 95) s"

definition sanitize_path_component :: "(codepoint \<Rightarrow> bool) \<Rightarrow> pystr \<Rightarrow> pystr" where
  "sanitize_path_component W name =
     py_strip (re_sub_problematic W (py_replace 47 45 (py_replace 58 45 name)))"

text \<open>
  The folder names of a plan folder, as built in \<^verbatim>\<open>_group_and_move_received_files\<close> and
  \<^verbatim>\<open>process_import_folder\<close>:
  \<^verbatim>\<open>
  study_id = getattr(plan_ds, "StudyInstanceUID", "unknown").split('.')[-1]
  patient_folder = os.path.join(self.watch_folder, f"{safe_patient_name} ({safe_patient_id})")
  plan_folder = os.path.join(patient_folder, f"{safe_plan_name}_{safe_study_id}")
  \<close>
\<close>

definition last_dot_segment :: "pystr \<Rightarrow> pystr" where
  "last_dot_segment s = last (py_split 46 s)"

definition patient_folder_name :: "(codepoint \<Rightarrow> bool) \<Rightarrow> pystr \<Rightarrow> pystr \<Rightarrow> pystr" where
  "patient_folder_name W patient_name patient_id =
     sanitize_path_component W patient_name @ pystr_of '' ('' @
     sanitize_path_component W patient_id @ pystr_of '')''"

definition plan_folder_name :: "(codepoint \<Rightarrow> bool) \<Rightarrow> pystr \<Rightarrow> pystr \<Rightarrow> pystr" where
  "plan_folder_name W plan_name study_uid =
     sanitize_path_component W plan_name @ pystr_of ''_'' @
     sanitize_path_component W (last_dot_segment study_uid)"

text \<open>
  A name is a single path component when joining it to a directory stays inside that
  directory: it is not empty, not \<^verbatim>\<open>.\<close> or \<^verbatim>\<open>..\<close>, and holds no separator and no
  drive colon.
\<close>

definition single_component :: "pystr \<Rightarrow> bool" where
  "single_component n \<longleftrightarrow>
     n \<noteq> [] \<and> n \<noteq> pystr_of ''.'' \<and> n \<noteq> pystr_of ''..'' \<and>
     47 \<notin> set n \<and> 92 \<notin> set n \<and> 58 \<notin> set n"

text \<open>What the sanitizer does to one character.\<close>

definition sanitize_char :: "(codepoint \<Rightarrow> bool) \<Rightarrow> codepoint \<Rightarrow> codepoint" where
  "sanitize_char W c = (if c = 58 \<or> c = 47 then 45 else if keep_char W c then c else 95)"

subsection \<open>The sanitizer as the specification words it\<close>

text \<open>
  The specification's four rules, taken literally: (a) replace \<^verbatim>\<open>:\<close> and \<^verbatim>\<open>/\<close> by
  \<^verbatim>\<open>-\<close>; (b) replace every character outside \<^verbatim>\<open>[A-Za-z0-9_.\- ]\<close> by \<^verbatim>\<open>_\<close>;
  (c) collapse runs of \<^verbatim>\<open>_\<close> and \<^verbatim>\<open>-\<close> to one \<^verbatim>\<open>_\<close>; (d) trim leading and trailing
  \<^verbatim>\<open>_\<close>. This definition follows the specification, not the source; it is what
  \<open>sanitize_path_component\<close> is compared with.
\<close>

definition ascii_keep :: "codepoint \<Rightarrow> bool" where
  "ascii_keep c \<longleftrightarrow>
     (48 \<le> c \<and> c \<le> 57) \<or> (65 \<le> c \<and> c \<le> 90) \<or> (97 \<le> c \<and> c \<le> 122) \<or>
     c = 95 \<or> c = 46 \<or> c = 45 \<or> c = 32"

fun collapse_runs :: "pystr \<Rightarrow> pystr" where
  "collapse_runs (c # d # cs) =
     (if (c = 95 \<or> c = 45) \<and> (d = 95 \<or> d = 45) then collapse_runs (95 # cs)
      else c # collapse_runs (d # cs))"
| "collapse_runs cs = cs"

definition trim_underscores :: "pystr \<Rightarrow> pystr" where
  "trim_underscores s = rev (dropWhile (\<lambda>c. c = 95) (rev (dropWhile (\<lambda>c. c = 95) s)))"

definition spec_sanitize :: "pystr \<Rightarrow> pystr" where
  "spec_sanitize s =
     trim_underscores (collapse_runs (map (\<lambda>c. if ascii_keep c then c else 95)
       (py_replace 47 45 (py_replace 58 45 s))))"

section \<open>More of Python's string and error vocabulary\<close>

text \<open>The exceptions that the modelled code can raise.\<close>

datatype py_error = ValueError | TypeError | NameError | OSError

text \<open>\<^verbatim>\<open>s.lower()\<close> on the ASCII letters; other code points are left as they are.\<close>

definition ascii_lower :: "pystr \<Rightarrow> pystr" where
  "ascii_lower s = map (\<lambda>c. if 65 \<le> c \<and> c \<le> 90 then c + 32 else c) s"

section \<open>Trusted application entities (DICOMnode.py)\<close>

text \<open>
  \<^verbatim>\<open>
  TRUSTED_AE_TITLES = [ae.strip() for ae in trusted_ae_string.split(',')]
  def is_trusted_ae(requestor_ae_title):
      return requestor_ae_title in TRUSTED_AE_TITLES
  \<close>
\<close>

type_synonym status = "16 word"

definition TRUSTED_AE_TITLES :: "pystr \<Rightarrow> pystr list" where
  "TRUSTED_AE_TITLES trusted_ae_string = map py_strip (py_split 44 trusted_ae_string)"

definition is_trusted_ae :: "pystr list \<Rightarrow> pystr \<Rightarrow> bool" where
  "is_trusted_ae trusted requestor_ae_title \<longleftrightarrow> requestor_ae_title \<in> set trusted"

section \<open>The rule engine (rules_manager.py)\<close>

text \<open>
  A \<^verbatim>\<open>ConfigParser\<close> is an ordered list of sections, each an ordered list of options.
  Option names are stored in lower case, as \<^verbatim>\<open>optionxform\<close> does. The model covers
  configurations without a \<^verbatim>\<open>DEFAULT\<close> section and without interpolation syntax.
  \<^verbatim>\<open>getboolean\<close> raises \<^verbatim>\<open>ValueError\<close> on a value that is not one of the eight
  boolean words; the \<^verbatim>\<open>fallback\<close> covers a missing section or option only.
\<close>

type_synonym cfg_section = "(pystr \<times> pystr) list"
type_synonym config = "(pystr \<times> cfg_section) list"

definition cfg_get :: "config \<Rightarrow> pystr \<Rightarrow> pystr \<Rightarrow> pystr \<Rightarrow> pystr" where
  "cfg_get cfg sec opt fallback =
     (case map_of cfg sec of
        None \<Rightarrow> fallback
      | Some s \<Rightarrow> (case map_of s opt of None \<Rightarrow> fallback | Some v \<Rightarrow> v))"

definition parse_boolean :: "pystr \<Rightarrow> py_error + bool" where
  "parse_boolean v =
     (let l = ascii_lower v in
      if l \<in> set (map pystr_of [''1'', ''yes'', ''true'', ''on'']) then Inr True
      else if l \<in> set (map pystr_of [''0'', ''no'', ''false'', ''off'']) then Inr False
      else Inl ValueError)"

definition cfg_getboolean :: "config \<Rightarrow> pystr \<Rightarrow> pystr \<Rightarrow> bool \<Rightarrow> py_error + bool" where
  "cfg_getboolean cfg sec opt fallback =
     (case map_of cfg sec of
        None \<Rightarrow> Inr fallback
      | Some s \<Rightarrow> (case map_of s opt of None \<Rightarrow> Inr fallback | Some v \<Rightarrow> parse_boolean v))"

definition cfg_sections :: "config \<Rightarrow> pystr list" where
  "cfg_sections cfg = remdups (map fst cfg)"

text \<open>
  A rule as \<^verbatim>\<open>get_all_rules\<close> builds it, and a node as \<^verbatim>\<open>get_dicom_nodes\<close> of
  \<^verbatim>\<open>SettingsManager\<close> (main.py) builds it.
\<close>

record rule =
  rule_id :: pystr
  rule_name :: pystr
  rule_enabled :: bool
  rule_source_ae :: pystr
  rule_target_nodes :: "pystr list"
  rule_plan_label_match :: pystr

record node =
  node_name :: pystr
  node_aet :: pystr
  node_ip :: pystr
  node_port :: pystr
  node_enabled :: bool

text \<open>
  The state the evaluation can see: the rule configuration of the \<^verbatim>\<open>RulesManager\<close>
  and the node configuration of the \<^verbatim>\<open>SettingsManager\<close>. Calls of the logger are not
  part of the model.
\<close>

record manager_state =
  rules_config :: config
  settings_config :: config

definition get_rules_enabled :: "config \<Rightarrow> py_error + bool" where
  "get_rules_enabled cfg =
     cfg_getboolean cfg (pystr_of ''General'') (pystr_of ''rules_enabled'') False"

text \<open>A loop that builds a list and stops at the first exception.\<close>

fun collect :: "('a \<Rightarrow> py_error + 'b) \<Rightarrow> 'a list \<Rightarrow> py_error + 'b list" where
  "collect f [] = Inr []"
| "collect f (x # xs) =
     (case f x of
        Inl e \<Rightarrow> Inl e
      | Inr y \<Rightarrow> (case collect f xs of Inl e \<Rightarrow> Inl e | Inr ys \<Rightarrow> Inr (y # ys)))"

definition get_rule :: "config \<Rightarrow> pystr \<Rightarrow> py_error + rule" where
  "get_rule cfg sec =
     (case cfg_getboolean cfg sec (pystr_of ''enabled'') False of
        Inl e \<Rightarrow> Inl e
      | Inr en \<Rightarrow> Inr \<lparr>
          rule_id = sec,
          rule_name = cfg_get cfg sec (pystr_of ''name'') (pystr_of ''Regel '' @ drop 4 sec),
          rule_enabled = en,
          rule_source_ae = cfg_get cfg sec (pystr_of ''source_ae'') [],
          rule_target_nodes = py_split 44 (cfg_get cfg sec (pystr_of ''target_nodes'') []),
          rule_plan_label_match = cfg_get cfg sec (pystr_of ''plan_label_match'') [] \<rparr>)"

definition get_all_rules :: "config \<Rightarrow> py_error + rule list" where
  "get_all_rules cfg =
     collect (get_rule cfg) (filter (prefix (pystr_of ''Rule'')) (cfg_sections cfg))"

definition get_dicom_node :: "config \<Rightarrow> pystr \<Rightarrow> py_error + node" where
  "get_dicom_node cfg sec =
     (case cfg_getboolean cfg sec (pystr_of ''enabled'') False of
        Inl e \<Rightarrow> Inl e
      | Inr en \<Rightarrow> Inr \<lparr>
          node_name = cfg_get cfg sec (pystr_of ''name'') (pystr_of ''Unbekannt''),
          node_aet = cfg_get cfg sec (pystr_of ''aet'') [],
          node_ip = cfg_get cfg sec (pystr_of ''ip'') [],
          node_port = cfg_get cfg sec (pystr_of ''port'') (pystr_of ''104''),
          node_enabled = en \<rparr>)"

definition get_dicom_nodes :: "config \<Rightarrow> py_error + node list" where
  "get_dicom_nodes cfg =
     collect (get_dicom_node cfg) (filter (prefix (pystr_of ''DicomNode'')) (cfg_sections cfg))"

definition get_node_info :: "config \<Rightarrow> pystr \<Rightarrow> py_error + node option" where
  "get_node_info cfg name =
     (case get_dicom_nodes cfg of
        Inl e \<Rightarrow> Inl e
      | Inr nodes \<Rightarrow> Inr (find (\<lambda>n. node_name n = name) nodes))"

text \<open>
  The inner loop of \<^verbatim>\<open>check_forwarding_rules\<close> over the target node names of one rule:
  \<^verbatim>\<open>
  for node_name in rule['target_nodes']:
      node_name = node_name.strip()
      if not node_name: continue
      node_info = settings_manager.get_node_info(node_name)
      if node_info and node_info.get('enabled', False):
          target_nodes.append((node_name, node_info))
  \<close>
\<close>

fun rule_targets :: "config \<Rightarrow> pystr list \<Rightarrow> py_error + (pystr \<times> node) list" where
  "rule_targets settings [] = Inr []"
| "rule_targets settings (raw_name # rest) =
     (let name = py_strip raw_name in
      if name = [] then rule_targets settings rest
      else (case get_node_info settings name of
              Inl e \<Rightarrow> Inl e
            | Inr info \<Rightarrow>
                (case rule_targets settings rest of
                   Inl e \<Rightarrow> Inl e
                 | Inr others \<Rightarrow>
                     (case info of
                        Some n \<Rightarrow> if node_enabled n then Inr ((name, n) # others) else Inr others
                      | None \<Rightarrow> Inr others))))"

text \<open>
  The four \<^verbatim>\<open>continue\<close> guards of the outer loop: the rule is disabled, its source AE
  is set and differs, its label is set and is not a substring of the plan name, or it
  has no target nodes.
\<close>

definition rule_applies :: "rule \<Rightarrow> pystr \<Rightarrow> pystr \<Rightarrow> bool" where
  "rule_applies r source_ae plan_name \<longleftrightarrow>
     rule_enabled r \<and>
     \<not> (rule_source_ae r \<noteq> [] \<and> rule_source_ae r \<noteq> source_ae) \<and>
     \<not> (rule_plan_label_match r \<noteq> [] \<and> \<not> sublist (rule_plan_label_match r) plan_name) \<and>
     \<not> (rule_target_nodes r = [] \<or> rule_target_nodes r = [[]])"

fun check_rules :: "config \<Rightarrow> rule list \<Rightarrow> pystr \<Rightarrow> pystr \<Rightarrow> py_error + (pystr \<times> node) list" where
  "check_rules settings [] source_ae plan_name = Inr []"
| "check_rules settings (r # rs) source_ae plan_name =
     (if rule_applies r source_ae plan_name
      then (case rule_targets settings (rule_target_nodes r) of
              Inl e \<Rightarrow> Inl e
            | Inr ts \<Rightarrow>
                (case check_rules settings rs source_ae plan_name of
                   Inl e \<Rightarrow> Inl e
                 | Inr others \<Rightarrow> Inr (ts @ others)))
      else check_rules settings rs source_ae plan_name)"

definition check_forwarding_rules ::
  "manager_state \<Rightarrow> pystr \<Rightarrow> pystr \<Rightarrow> (py_error + (pystr \<times> node) list) \<times> manager_state" where
  "check_forwarding_rules st source_ae plan_name =
     (case get_rules_enabled (rules_config st) of
        Inl e \<Rightarrow> (Inl e, st)
      | Inr False \<Rightarrow> (Inr [], st)
      | Inr True \<Rightarrow>
          (case get_all_rules (rules_config st) of
             Inl e \<Rightarrow> (Inl e, st)
           | Inr all_rules \<Rightarrow>
               (check_rules (settings_config st) all_rules source_ae plan_name, st)))"


section \<open>DICOM objects and the filesystem\<close>

text \<open>
  The attributes of a DICOM object that the code reads. An absent attribute is \<open>None\<close>.
  \<open>ReferencedRTPlanSequence\<close> holds, for each item of the sequence, its
  \<^verbatim>\<open>ReferencedSOPInstanceUID\<close> if it has one. \<open>MediaStorageSOPInstanceUID\<close> and
  \<open>SourceApplicationEntityTitle\<close> are the two file-meta attributes used. Everything else
  of the object, pixel data included, is the opaque \<open>payload\<close>.
\<close>

record dataset =
  Modality :: "pystr option"
  PatientID :: "pystr option"
  PatientName :: "pystr option"
  SOPInstanceUID :: "pystr option"
  StudyInstanceUID :: "pystr option"
  FrameOfReferenceUID :: "pystr option"
  RTPlanLabel :: "pystr option"
  ReferencedRTPlanSequence :: "pystr option list option"
  SeriesDescription :: "pystr option"
  StudyDescription :: "pystr option"
  MediaStorageSOPInstanceUID :: "pystr option"
  SourceApplicationEntityTitle :: "pystr option"
  payload :: nat

text \<open>
  A file holds a DICOM object in the file format, with preamble and file meta
  (\<open>DicomFile\<close>); the encoded data set of an object alone, without preamble and file
  meta, as it travels in a C-STORE request (\<open>BareDataset\<close>); a text; or other bytes that
  are no DICOM data. A path is the list of its components, and the filesystem an
  association list from paths to files; directories are implicit.
\<close>

datatype file_content = DicomFile dataset | BareDataset dataset | TextFile pystr | Unreadable nat

type_synonym path = "pystr list"
type_synonym filesystem = "(path \<times> file_content) list"

definition path_exists :: "filesystem \<Rightarrow> path \<Rightarrow> bool" where
  "path_exists fs p \<longleftrightarrow> map_of fs p \<noteq> None"

text \<open>
  \<^verbatim>\<open>dcmread(file_path)\<close> as the folder watcher of DICOMnode.py calls it, without
  \<^verbatim>\<open>force\<close>: it reads a file in the DICOM file format and raises for a missing file
  and for every file without the preamble.
\<close>

definition dcmread :: "filesystem \<Rightarrow> path \<Rightarrow> py_error + dataset" where
  "dcmread fs p = (case map_of fs p of Some (DicomFile ds) \<Rightarrow> Inr ds | _ \<Rightarrow> Inl OSError)"

text \<open>
  \<^verbatim>\<open>pydicom.dcmread(file_path, force=True)\<close> as every read of \<^verbatim>\<open>DicomProcessor\<close> is
  written: a file without preamble is parsed as a data set, so bytes that are no DICOM
  data give a dataset without any of the attributes; only a missing file raises.
\<close>

definition no_attributes :: "nat \<Rightarrow> dataset" where
  "no_attributes n = \<lparr>Modality = None, PatientID = None, PatientName = None,
     SOPInstanceUID = None, StudyInstanceUID = None, FrameOfReferenceUID = None,
     RTPlanLabel = None, ReferencedRTPlanSequence = None, SeriesDescription = None,
     StudyDescription = None, MediaStorageSOPInstanceUID = None,
     SourceApplicationEntityTitle = None, payload = n\<rparr>"

definition dcmread_force :: "filesystem \<Rightarrow> path \<Rightarrow> py_error + dataset" where
  "dcmread_force fs p =
     (case map_of fs p of
        None \<Rightarrow> Inl OSError
      | Some (DicomFile ds) \<Rightarrow> Inr ds
      | Some (BareDataset ds) \<Rightarrow> Inr ds
      | Some (TextFile t) \<Rightarrow> Inr (no_attributes 0)
      | Some (Unreadable n) \<Rightarrow> Inr (no_attributes n))"

definition os_remove :: "filesystem \<Rightarrow> path \<Rightarrow> filesystem" where
  "os_remove fs p = AList.delete p fs"

definition fs_write :: "filesystem \<Rightarrow> path \<Rightarrow> file_content \<Rightarrow> filesystem" where
  "fs_write fs p f = AList.update p f fs"

text \<open>
  \<^verbatim>\<open>os.walk(folder)\<close> filtered by \<^verbatim>\<open>file.lower().endswith('.dcm')\<close>: the DICOM files
  below a folder, at any depth.
\<close>

definition is_dcm_name :: "pystr \<Rightarrow> bool" where
  "is_dcm_name name \<longleftrightarrow> suffix (pystr_of ''.dcm'') (ascii_lower name)"

definition walk_dcm :: "filesystem \<Rightarrow> path \<Rightarrow> path list" where
  "walk_dcm fs folder =
     filter (\<lambda>p. strict_prefix folder p \<and> is_dcm_name (last p)) (map fst fs)"

definition modality_or :: "pystr \<Rightarrow> dataset \<Rightarrow> pystr" where
  "modality_or dflt ds = (case Modality ds of Some m \<Rightarrow> m | None \<Rightarrow> dflt)"

section \<open>Modality ordering of a send batch (dicom_processor.py)\<close>

text \<open>
  \<^verbatim>\<open>DicomProcessor.__init__\<close> sets \<^verbatim>\<open>self.modality_order\<close> to the first table below.
  \<^verbatim>\<open>_sort_files_by_modality\<close> installs the second one only if the attribute is
  missing, gives an unknown modality the order 99 and a file that cannot be read the
  order 100, and sorts with the stable \<^verbatim>\<open>list.sort\<close>. The attribute is the argument
  \<open>attr\<close>.
\<close>

definition modality_order_init :: "(pystr \<times> nat) list" where
  "modality_order_init =
     [(pystr_of ''CT'', 1), (pystr_of ''RTSTRUCT'', 2), (pystr_of ''RTPLAN'', 3),
      (pystr_of ''RTDOSE'', 4)]"

definition modality_order_fallback :: "(pystr \<times> nat) list" where
  "modality_order_fallback =
     [(pystr_of ''CT'', 1), (pystr_of ''RTSTRUCT'', 2), (pystr_of ''RTPLAN'', 3),
      (pystr_of ''RTDOSE'', 4), (pystr_of ''RTIMAGE'', 5)]"

definition file_order :: "(pystr \<times> nat) list \<Rightarrow> filesystem \<Rightarrow> path \<Rightarrow> nat" where
  "file_order table fs p =
     (case dcmread_force fs p of
        Inr ds \<Rightarrow> (case map_of table (modality_or (pystr_of ''UNKNOWN'') ds) of
                     Some k \<Rightarrow> k | None \<Rightarrow> 99)
      | Inl e \<Rightarrow> 100)"

definition sort_files_by_modality ::
  "(pystr \<times> nat) list option \<Rightarrow> filesystem \<Rightarrow> path list \<Rightarrow> path list" where
  "sort_files_by_modality attr fs file_list =
     (let table = (case attr of Some t \<Rightarrow> t | None \<Rightarrow> modality_order_fallback)
      in sort_key (file_order table fs) file_list)"

text \<open>
  The rank of the specification, and the rank of a file of a batch: that of its
  modality, or 4 when the file cannot be read.
\<close>

definition rank :: "pystr \<Rightarrow> nat" where
  "rank m =
     (if m = pystr_of ''CT'' then 0
      else if m = pystr_of ''RTSTRUCT'' then 1
      else if m = pystr_of ''RTPLAN'' then 2
      else if m = pystr_of ''RTDOSE'' then 3
      else 4)"

definition file_rank :: "filesystem \<Rightarrow> path \<Rightarrow> nat" where
  "file_rank fs p =
     (case dcmread_force fs p of
        Inr ds \<Rightarrow> rank (modality_or (pystr_of ''UNKNOWN'') ds)
      | Inl e \<Rightarrow> 4)"

text \<open>
  The batch that \<^verbatim>\<open>send_plan_to_node\<close> hands to \<^verbatim>\<open>_send_files_to_node\<close>:
  \<^verbatim>\<open>sorted_files = self._sort_files_by_modality(dicom_files)\<close>.
\<close>

definition plan_send_batch :: "(pystr \<times> nat) list option \<Rightarrow> filesystem \<Rightarrow> path \<Rightarrow> path list" where
  "plan_send_batch attr fs plan_path = sort_files_by_modality attr fs (walk_dcm fs plan_path)"

text \<open>The rank as a function of the order number of the source.\<close>

definition rank_of_order :: "nat \<Rightarrow> nat" where
  "rank_of_order k = (if k \<le> 4 then k - 1 else 4)"

section \<open>Time, the disk and the network\<close>

text \<open>
  A reading of the clock, with the calendar fields that \<^verbatim>\<open>strftime\<close> prints and the
  seconds since the epoch that \<^verbatim>\<open>time.time()\<close> returns. \<^verbatim>\<open>%Y\<close> prints four digits,
  for the years 1000 to 9999.
\<close>

record datetime =
  year :: nat
  month :: nat
  day :: nat
  hour :: nat
  minute :: nat
  second :: nat
  epoch :: nat

definition two_digits :: "nat \<Rightarrow> pystr" where
  "two_digits n = [48 + n div 10 mod 10, 48 + n mod 10]"

definition four_digits :: "nat \<Rightarrow> pystr" where
  "four_digits n =
     [48 + n div 1000 mod 10, 48 + n div 100 mod 10, 48 + n div 10 mod 10, 48 + n mod 10]"

fun decimal :: "nat \<Rightarrow> pystr" where
  "decimal n = (if n < 10 then [48 + n] else decimal (n div 10) @ [48 + n mod 10])"

declare decimal.simps [simp del]

text \<open>\<^verbatim>\<open>strftime("%Y%m%d_%H%M%S")\<close> and \<^verbatim>\<open>strftime("%Y-%m-%d %H:%M:%S")\<close>.\<close>

definition strftime_compact :: "datetime \<Rightarrow> pystr" where
  "strftime_compact t =
     four_digits (year t) @ two_digits (month t) @ two_digits (day t) @ pystr_of ''_'' @
     two_digits (hour t) @ two_digits (minute t) @ two_digits (second t)"

definition strftime_iso :: "datetime \<Rightarrow> pystr" where
  "strftime_iso t =
     four_digits (year t) @ pystr_of ''-'' @ two_digits (month t) @ pystr_of ''-'' @
     two_digits (day t) @ pystr_of '' '' @ two_digits (hour t) @ pystr_of '':'' @
     two_digits (minute t) @ pystr_of '':'' @ two_digits (second t)"

text \<open>
  The world a function runs in: the filesystem, and a clock given by the sequence of
  its readings and the number of readings taken so far.
\<close>

record world =
  files :: filesystem
  clock :: "nat \<Rightarrow> datetime"
  ticks :: nat

definition now :: "world \<Rightarrow> datetime \<times> world" where
  "now w = (clock w (ticks w), w\<lparr>ticks := Suc (ticks w)\<rparr>)"

text \<open>\<^verbatim>\<open>os.path.basename\<close>, and a path printed with its separators.\<close>

definition basename :: "path \<Rightarrow> pystr" where
  "basename p = (if p = [] then [] else last p)"

fun join_path :: "path \<Rightarrow> pystr" where
  "join_path [] = []"
| "join_path [x] = x"
| "join_path (x # y # ys) = x @ [47] @ join_path (y # ys)"

text \<open>
  \<^verbatim>\<open>str(e)\<close> of an exception. The text of a \<^verbatim>\<open>NameError\<close> is the interpreter's; the
  text of an exception raised inside a library is stood for by the name of its class.
\<close>

definition exc_text :: "py_error \<Rightarrow> pystr" where
  "exc_text e =
     (case e of
        NameError \<Rightarrow> pystr_of ''name 'Dataset' is not defined''
      | ValueError \<Rightarrow> pystr_of ''ValueError''
      | TypeError \<Rightarrow> pystr_of ''TypeError''
      | OSError \<Rightarrow> pystr_of ''OSError'')"

text \<open>
  The peer of an association: whether \<^verbatim>\<open>ae.associate\<close> establishes it, is refused or
  raises, and what \<^verbatim>\<open>assoc.send_c_store\<close> answers for the object of a file: a status
  dataset with its code, an empty dataset, or an exception with its text.
\<close>

datatype assoc_result = Established | NotEstablished | AssociateRaises pystr

datatype store_result = Status status | NoStatus | StoreRaises pystr

record network =
  associate :: assoc_result
  send_c_store :: "path \<Rightarrow> store_result"

section \<open>The station and its C-ECHO handler\<close>

text \<open>
  The state that a handler of the station could change: the world, and the receive
  buffer of \<^verbatim>\<open>DicomProcessor\<close>, which maps a key of patient ID and study UID to the
  staged files of its bucket.
\<close>

record station =
  disk :: world
  receive_buffer :: "((pystr \<times> pystr) \<times> path list) list"

text \<open>
  \<^verbatim>\<open>
  def handle_echo(event):
      requestor_ae_title = event.assoc.requestor.ae_title
      print(...)
      if not is_trusted_ae(requestor_ae_title):
          print(...)
          return 0xC001
      print(...)
      return 0x0000
  \<close>
  The handler prints to the console and returns; the state is handed back as it came.
\<close>

definition handle_echo :: "pystr list \<Rightarrow> pystr \<Rightarrow> station \<Rightarrow> status \<times> station" where
  "handle_echo trusted requestor_ae_title st =
     (if \<not> is_trusted_ae trusted requestor_ae_title then (0xC001, st) else (0x0000, st))"

text \<open>
  What \<^verbatim>\<open>start_receiver\<close> of DICOMnode.py binds when it starts the server. The
  \<^verbatim>\<open>Verification\<close> SOP class is among the supported contexts, so a C-ECHO request is
  accepted, but the only handler bound is the one for C-STORE:
  \<^verbatim>\<open>
  handlers = [(evt.EVT_C_STORE, handle_store)]
  ae.start_server((ip, port), evt_handlers=handlers)
  \<close>
  \<^verbatim>\<open>handle_echo\<close> is named nowhere else in the module. \<^verbatim>\<open>start_receiver\<close> of
  \<^verbatim>\<open>DicomProcessor\<close> binds \<^verbatim>\<open>evt.EVT_C_STORE\<close> only as well.
\<close>

datatype dimse_event = EVT_C_STORE | EVT_C_ECHO

definition start_receiver_handlers :: "dimse_event list" where
  "start_receiver_handlers = [EVT_C_STORE]"

text \<open>
  The answer of the server to a C-ECHO request. pynetdicom calls the handler bound to
  \<^verbatim>\<open>evt.EVT_C_ECHO\<close> and sends the status it returns; when no handler is bound, the
  default handler of the library answers with status \<^verbatim>\<open>0x0000\<close>.
\<close>

definition serve_c_echo ::
  "dimse_event list \<Rightarrow> pystr list \<Rightarrow> pystr \<Rightarrow> station \<Rightarrow> status \<times> station" where
  "serve_c_echo bound trusted requestor_ae_title st =
     (if EVT_C_ECHO \<in> set bound then handle_echo trusted requestor_ae_title st
      else (0x0000, st))"

section \<open>The Failed path\<close>

text \<open>
  \<^verbatim>\<open>DicomProcessor.move_to_failed\<close> (dicom_processor.py):
  \<^verbatim>\<open>
  if not os.path.exists(file_path): return
  basename = os.path.basename(file_path)
  timestamp = datetime.now().strftime("%Y%m%d_%H%M%S")
  dest_file = os.path.join(self.failed_folder, f"{timestamp}_{basename}")
  shutil.move(file_path, dest_file)
  error_file = f"{dest_file}.error"
  with open(error_file, 'w') as f:
      f.write(f"{error_msg}\n")
      f.write(f"Originalpfad: {file_path}\n")
      f.write(f"Zeitpunkt: {datetime.now().strftime('%Y-%m-%d %H:%M:%S')}\n")
  \<close>
\<close>

definition failed_name :: "datetime \<Rightarrow> path \<Rightarrow> pystr" where
  "failed_name t file_path = strftime_compact t @ pystr_of ''_'' @ basename file_path"

definition error_text :: "pystr \<Rightarrow> path \<Rightarrow> datetime \<Rightarrow> pystr" where
  "error_text error_msg file_path t =
     error_msg @ [10] @ pystr_of ''Originalpfad: '' @ join_path file_path @ [10] @
     pystr_of ''Zeitpunkt: '' @ strftime_iso t @ [10]"

definition move_to_failed :: "path \<Rightarrow> path \<Rightarrow> pystr \<Rightarrow> world \<Rightarrow> world" where
  "move_to_failed failed_folder file_path error_msg w =
     (case map_of (files w) file_path of
        None \<Rightarrow> w
      | Some c \<Rightarrow>
          (let (t1, w1) = now w;
               dest_file = failed_folder @ [failed_name t1 file_path];
               w2 = w1\<lparr>files := fs_write (os_remove (files w1) file_path) dest_file c\<rparr>;
               error_file = failed_folder @ [failed_name t1 file_path @ pystr_of ''.error''];
               (t2, w3) = now w2
           in w3\<lparr>files := fs_write (files w3) error_file
                              (TextFile (error_text error_msg file_path t2))\<rparr>))"

text \<open>
  \<^verbatim>\<open>DICOMFolderWatcher.move_to_failed\<close> and \<^verbatim>\<open>log_error\<close> (DICOMnode.py). The failed
  folder is \<^verbatim>\<open>failed\<close> below the watch folder and the log file is
  \<^verbatim>\<open>send_errors.log\<close> in it:
  \<^verbatim>\<open>
  basename = os.path.basename(file_path)
  timestamp = time.strftime("%Y%m%d_%H%M%S")
  destination = os.path.join(self.failed_folder, f"{timestamp}_{basename}")
  shutil.copy2(file_path, destination)
  os.remove(file_path)
  self.log_error(f"Failed file moved to {destination}", error_message)
  \<close>
  \<^verbatim>\<open>
  timestamp = time.strftime("%Y-%m-%d %H:%M:%S")
  log_message = f"[{timestamp}] {context}: {str(error)}\n"
  with open(self.log_file, 'a') as f: f.write(log_message)
  \<close>
  When the file is missing \<^verbatim>\<open>copy2\<close> raises and the handler only prints. The log file
  is written by \<^verbatim>\<open>log_error\<close> alone, so it is a text or absent.
\<close>

definition watcher_failed_folder :: "path \<Rightarrow> path" where
  "watcher_failed_folder watch_folder = watch_folder @ [pystr_of ''failed'']"

definition watcher_log_file :: "path \<Rightarrow> path" where
  "watcher_log_file watch_folder = watcher_failed_folder watch_folder @ [pystr_of ''send_errors.log'']"

definition log_error :: "path \<Rightarrow> pystr \<Rightarrow> pystr \<Rightarrow> world \<Rightarrow> world" where
  "log_error watch_folder context error w =
     (let (t, w1) = now w;
          log_message = pystr_of ''['' @ strftime_iso t @ pystr_of ''] '' @ context @
                        pystr_of '': '' @ error @ [10]
      in (case map_of (files w1) (watcher_log_file watch_folder) of
            None \<Rightarrow> w1\<lparr>files := fs_write (files w1) (watcher_log_file watch_folder)
                                  (TextFile log_message)\<rparr>
          | Some (TextFile old) \<Rightarrow>
              w1\<lparr>files := fs_write (files w1) (watcher_log_file watch_folder)
                           (TextFile (old @ log_message))\<rparr>
          | Some other \<Rightarrow> w1))"

definition move_to_failed_watcher :: "path \<Rightarrow> path \<Rightarrow> pystr \<Rightarrow> world \<Rightarrow> world" where
  "move_to_failed_watcher watch_folder file_path error_message w =
     (let (t, w1) = now w;
          destination = watcher_failed_folder watch_folder @ [failed_name t file_path]
      in (case map_of (files w1) file_path of
            None \<Rightarrow> w1
          | Some c \<Rightarrow>
              log_error watch_folder
                (pystr_of ''Failed file moved to '' @ join_path destination) error_message
                (w1\<lparr>files := os_remove (fs_write (files w1) destination c) file_path\<rparr>)))"

section \<open>The send engine of DicomProcessor\<close>

text \<open>
  \<^verbatim>\<open>_send_files_to_node\<close>: one association, every file read again and sent in the
  order of the list. A file that cannot be read, an answer other than status 0 and an
  exception while sending are logged and not counted. The result is
  \<^verbatim>\<open>success_count == file_count\<close>. Nothing on disk is changed.
\<close>

definition sent_ok :: "network \<Rightarrow> filesystem \<Rightarrow> path \<Rightarrow> bool" where
  "sent_ok net fs p \<longleftrightarrow>
     (case dcmread_force fs p of
        Inl e \<Rightarrow> False
      | Inr ds \<Rightarrow> send_c_store net p = Status 0)"

definition send_files_to_node :: "network \<Rightarrow> filesystem \<Rightarrow> path list \<Rightarrow> bool" where
  "send_files_to_node net fs file_list =
     (if file_list = [] then False
      else (case associate net of
              Established \<Rightarrow> length (filter (sent_ok net fs) file_list) = length file_list
            | NotEstablished \<Rightarrow> False
            | AssociateRaises msg \<Rightarrow> False))"

text \<open>\<^verbatim>\<open>delete_plan_files\<close>: every file below the plan folder is removed.\<close>

definition delete_plan_files :: "path \<Rightarrow> world \<Rightarrow> world" where
  "delete_plan_files plan_path w =
     w\<lparr>files := filter (\<lambda>(p, c). \<not> strict_prefix plan_path p) (files w)\<rparr>"

text \<open>
  \<^verbatim>\<open>send_plan_to_node\<close>. The class body of \<^verbatim>\<open>DicomProcessor\<close> defines this name
  twice; the second definition replaces the first, so this is the method that a call
  reaches:
  \<^verbatim>\<open>
  dicom_files = [...all *.dcm below plan_path...]
  if not dicom_files: return False
  sorted_files = self._sort_files_by_modality(dicom_files)
  success = self._send_files_to_node(sorted_files, node_info)
  if delete_after and success:
      self.delete_plan_files(plan_path)
  return success
  \<close>
\<close>

definition send_plan_to_node ::
  "(pystr \<times> nat) list option \<Rightarrow> network \<Rightarrow> path \<Rightarrow> bool \<Rightarrow> world \<Rightarrow> bool \<times> world" where
  "send_plan_to_node attr net plan_path delete_after w =
     (let dicom_files = walk_dcm (files w) plan_path in
      if dicom_files = [] then (False, w)
      else (let sorted_files = sort_files_by_modality attr (files w) dicom_files;
                success = send_files_to_node net (files w) sorted_files
            in if delete_after \<and> success then (success, delete_plan_files plan_path w)
               else (success, w)))"

text \<open>
  \<^verbatim>\<open>send_all_dicom_files\<close> of \<^verbatim>\<open>DicomProcessor\<close>, called by the first, replaced
  definition of \<^verbatim>\<open>send_plan_to_node\<close>. The loop over the batch:
  \<^verbatim>\<open>
  status = assoc.send_c_store(ds)
  if status and status.Status == 0x0000:
      success_count += 1
      if delete_after:
          if os.path.exists(file_path):
              os.remove(file_path)
  else:
      error_msg = f"Fehler beim Senden: {basename} - Status: {status.Status if status else 'unbekannt'}"
      failed_files.append((file_path, error_msg))
  \<close>
  with \<^verbatim>\<open>except Exception as e\<close> appending
  \<^verbatim>\<open>f"Fehler beim Senden der DICOM-Datei {basename}: {str(e)}"\<close>. The loop returns the
  number of successes, the failed files with their messages, and the world.
\<close>

fun send_loop ::
  "network \<Rightarrow> bool \<Rightarrow> (path \<times> dataset) list \<Rightarrow> world \<Rightarrow> nat \<times> (path \<times> pystr) list \<times> world" where
  "send_loop net delete_after [] w = (0, [], w)"
| "send_loop net delete_after ((file_path, ds) # rest) w =
     (case send_c_store net file_path of
        Status s \<Rightarrow>
          if s = 0 then
            (let w1 = (if delete_after \<and> path_exists (files w) file_path
                       then w\<lparr>files := os_remove (files w) file_path\<rparr> else w);
                 (n, failed, w2) = send_loop net delete_after rest w1
             in (Suc n, failed, w2))
          else
            (let (n, failed, w2) = send_loop net delete_after rest w
             in (n, (file_path, pystr_of ''Fehler beim Senden: '' @ basename file_path @
                       pystr_of '' - Status: '' @ decimal (unat s)) # failed, w2))
      | NoStatus \<Rightarrow>
          (let (n, failed, w2) = send_loop net delete_after rest w
           in (n, (file_path, pystr_of ''Fehler beim Senden: '' @ basename file_path @
                     pystr_of '' - Status: unbekannt'') # failed, w2))
      | StoreRaises msg \<Rightarrow>
          (let (n, failed, w2) = send_loop net delete_after rest w
           in (n, (file_path, pystr_of ''Fehler beim Senden der DICOM-Datei '' @
                     basename file_path @ pystr_of '': '' @ msg) # failed, w2)))"

text \<open>The last loop of the function: every failed file goes to the Failed path.\<close>

fun move_all_to_failed :: "path \<Rightarrow> (path \<times> pystr) list \<Rightarrow> world \<Rightarrow> world" where
  "move_all_to_failed failed_folder [] w = w"
| "move_all_to_failed failed_folder ((file_path, error_msg) # rest) w =
     move_all_to_failed failed_folder rest (move_to_failed failed_folder file_path error_msg w)"

definition send_all_dicom_files ::
  "network \<Rightarrow> path \<Rightarrow> pystr \<Rightarrow> (path \<times> dataset) list \<Rightarrow> bool \<Rightarrow> world \<Rightarrow> bool \<times> world" where
  "send_all_dicom_files net failed_folder target_aet file_dataset_pairs delete_after w =
     (if file_dataset_pairs = [] then (True, w)
      else (case associate net of
              Established \<Rightarrow>
                (let (success_count, failed_files, w1) = send_loop net delete_after file_dataset_pairs w
                 in (success_count = length file_dataset_pairs,
                     move_all_to_failed failed_folder failed_files w1))
            | NotEstablished \<Rightarrow>
                (False, move_all_to_failed failed_folder
                   (map (\<lambda>(file_path, ds). (file_path, pystr_of ''Verbindung zu '' @ target_aet @
                        pystr_of '' konnte nicht hergestellt werden'')) file_dataset_pairs) w)
            | AssociateRaises msg \<Rightarrow>
                (False, move_all_to_failed failed_folder
                   (map (\<lambda>(file_path, ds). (file_path, [220] @ pystr_of ''bertragungsfehler: '' @ msg))
                      file_dataset_pairs) w)))"

section \<open>The folder watcher of DICOMnode.py\<close>

text \<open>
  The buckets of \<^verbatim>\<open>process_folder\<close>: \<^verbatim>\<open>modality_files\<close> for the four known
  modalities, and \<^verbatim>\<open>other_files\<close>.
\<close>

record buckets =
  ct_bucket :: "(path \<times> dataset) list"
  rtstruct_bucket :: "(path \<times> dataset) list"
  rtplan_bucket :: "(path \<times> dataset) list"
  rtdose_bucket :: "(path \<times> dataset) list"
  other_bucket :: "(path \<times> dataset) list"

definition empty_buckets :: buckets where
  "empty_buckets = \<lparr>ct_bucket = [], rtstruct_bucket = [], rtplan_bucket = [],
     rtdose_bucket = [], other_bucket = []\<rparr>"

text \<open>
  The body of the loop of \<^verbatim>\<open>process_folder\<close> over the files of the folder. A file
  that is read goes into the bucket of its modality. When reading raises and the lower
  case file name holds \<^verbatim>\<open>dose\<close>, the file is copied to \<^verbatim>\<open>temp_dose_files\<close> below
  the watch folder and \<^verbatim>\<open>ds = Dataset()\<close> follows; the module imports \<^verbatim>\<open>Dataset\<close>
  only inside \<^verbatim>\<open>send_all_dicom_files\<close>, so this raises \<^verbatim>\<open>NameError\<close>, and the inner
  handler moves the file to the Failed path. Any other unreadable file goes there
  directly.
\<close>

definition process_file :: "path \<Rightarrow> path \<Rightarrow> buckets \<times> world \<Rightarrow> buckets \<times> world" where
  "process_file watch_folder file_path bw =
     (let (b, w) = bw in
      case dcmread (files w) file_path of
        Inr ds \<Rightarrow>
          (let modality = modality_or (pystr_of ''UNKNOWN'') ds in
           if modality = pystr_of ''RTSTRUCT''
             then (b\<lparr>rtstruct_bucket := rtstruct_bucket b @ [(file_path, ds)]\<rparr>, w)
           else if modality = pystr_of ''CT''
             then (b\<lparr>ct_bucket := ct_bucket b @ [(file_path, ds)]\<rparr>, w)
           else if modality = pystr_of ''RTPLAN''
             then (b\<lparr>rtplan_bucket := rtplan_bucket b @ [(file_path, ds)]\<rparr>, w)
           else if modality = pystr_of ''RTDOSE''
             then (b\<lparr>rtdose_bucket := rtdose_bucket b @ [(file_path, ds)]\<rparr>, w)
           else (b\<lparr>other_bucket := other_bucket b @ [(file_path, ds)]\<rparr>, w))
      | Inl e \<Rightarrow>
          (let filename_lower = ascii_lower (basename file_path) in
           if sublist (pystr_of ''dose'') filename_lower \<or> sublist (pystr_of ''rtdose'') filename_lower
           then (let (t, w1) = now w;
                     temp_file = watch_folder @ [pystr_of ''temp_dose_files'',
                       pystr_of ''dose_'' @ decimal (epoch t) @ pystr_of ''_'' @ basename file_path]
                 in (case map_of (files w1) file_path of
                       None \<Rightarrow>
                         (b, move_to_failed_watcher watch_folder file_path
                               (pystr_of ''Error preparing dose file: '' @ exc_text OSError) w1)
                     | Some c \<Rightarrow>
                         (b, move_to_failed_watcher watch_folder file_path
                               (pystr_of ''Error preparing dose file: '' @ exc_text NameError)
                               (w1\<lparr>files := fs_write (files w1) temp_file c\<rparr>))))
           else (b, move_to_failed_watcher watch_folder file_path
                      (pystr_of ''Error reading file: '' @ exc_text e) w)))"

text \<open>
  \<^verbatim>\<open>process_folder\<close> up to the batch it hands to \<^verbatim>\<open>send_all_dicom_files\<close>: the
  buckets in the order CT, RTSTRUCT, RTPLAN, RTDOSE, then the other files. For a folder
  without DICOM files it only arms a timer.
\<close>

definition ordered_files :: "buckets \<Rightarrow> (path \<times> dataset) list" where
  "ordered_files b =
     ct_bucket b @ rtstruct_bucket b @ rtplan_bucket b @ rtdose_bucket b @ other_bucket b"

definition process_folder_batch :: "path \<Rightarrow> path \<Rightarrow> world \<Rightarrow> (path \<times> dataset) list \<times> world" where
  "process_folder_batch watch_folder folder_path w =
     (let all_files = walk_dcm (files w) folder_path in
      if all_files = [] then ([], w)
      else (let (b, w1) = fold (process_file watch_folder) all_files (empty_buckets, w)
            in (ordered_files b, w1)))"

text \<open>
  \<^verbatim>\<open>send_all_dicom_files\<close> of the watcher has no \<^verbatim>\<open>delete_after\<close>: it removes every
  file right after its own successful C-STORE. \<^verbatim>\<open>os.remove\<close> of a missing file raises
  inside the loop's \<^verbatim>\<open>try\<close>.
\<close>

fun send_loop_watcher ::
  "network \<Rightarrow> (path \<times> dataset) list \<Rightarrow> world \<Rightarrow> nat \<times> (path \<times> pystr) list \<times> world" where
  "send_loop_watcher net [] w = (0, [], w)"
| "send_loop_watcher net ((file_path, ds) # rest) w =
     (case send_c_store net file_path of
        Status s \<Rightarrow>
          if s = 0 then
            (if path_exists (files w) file_path
             then (let (n, failed, w2) =
                         send_loop_watcher net rest (w\<lparr>files := os_remove (files w) file_path\<rparr>)
                   in (Suc n, failed, w2))
             else (let (n, failed, w2) = send_loop_watcher net rest w
                   in (Suc n, (file_path, pystr_of ''Error sending DICOM file '' @
                         basename file_path @ pystr_of '': '' @ exc_text OSError) # failed, w2)))
          else
            (let (n, failed, w2) = send_loop_watcher net rest w
             in (n, (file_path, pystr_of ''Failed to send: '' @ basename file_path @
                       pystr_of '' - Status: '' @ decimal (unat s)) # failed, w2))
      | NoStatus \<Rightarrow>
          (let (n, failed, w2) = send_loop_watcher net rest w
           in (n, (file_path, pystr_of ''Failed to send: '' @ basename file_path @
                     pystr_of '' - Status: unknown'') # failed, w2))
      | StoreRaises msg \<Rightarrow>
          (let (n, failed, w2) = send_loop_watcher net rest w
           in (n, (file_path, pystr_of ''Error sending DICOM file '' @ basename file_path @
                     pystr_of '': '' @ msg) # failed, w2)))"

fun move_all_to_failed_watcher :: "path \<Rightarrow> (path \<times> pystr) list \<Rightarrow> world \<Rightarrow> world" where
  "move_all_to_failed_watcher watch_folder [] w = w"
| "move_all_to_failed_watcher watch_folder ((file_path, error_msg) # rest) w =
     move_all_to_failed_watcher watch_folder rest
       (move_to_failed_watcher watch_folder file_path error_msg w)"

definition send_all_dicom_files_watcher ::
  "network \<Rightarrow> path \<Rightarrow> pystr \<Rightarrow> (path \<times> dataset) list \<Rightarrow> world \<Rightarrow> nat \<times> world" where
  "send_all_dicom_files_watcher net watch_folder target_aet file_dataset_pairs w =
     (if file_dataset_pairs = [] then (0, w)
      else (case associate net of
              Established \<Rightarrow>
                (let (success_count, failed_files, w1) = send_loop_watcher net file_dataset_pairs w
                 in (success_count, move_all_to_failed_watcher watch_folder failed_files w1))
            | NotEstablished \<Rightarrow>
                (0, move_all_to_failed_watcher watch_folder
                   (map (\<lambda>(file_path, ds). (file_path,
                        pystr_of ''Failed to establish association with '' @ target_aet))
                      file_dataset_pairs) w)
            | AssociateRaises msg \<Rightarrow>
                (0, move_all_to_failed_watcher watch_folder
                   (map (\<lambda>(file_path, ds). (file_path, pystr_of ''Transfer error: '' @ msg))
                      file_dataset_pairs) w)))"

definition process_folder :: "network \<Rightarrow> path \<Rightarrow> pystr \<Rightarrow> path \<Rightarrow> world \<Rightarrow> world" where
  "process_folder net watch_folder target_aet folder_path w =
     (let (batch, w1) = process_folder_batch watch_folder folder_path w
      in snd (send_all_dicom_files_watcher net watch_folder target_aet batch w1))"

text \<open>The rank of an entry of the watcher's batch: that of the modality of its dataset.\<close>

definition pair_rank :: "path \<times> dataset \<Rightarrow> nat" where
  "pair_rank pd = rank (modality_or (pystr_of ''UNKNOWN'') (snd pd))"

section \<open>Concrete inputs\<close>

text \<open>The inputs at which the theorems below are evaluated.\<close>

definition example_rules :: config where
  "example_rules =
     [(pystr_of ''General'', [(pystr_of ''rules_enabled'', pystr_of ''True'')]),
      (pystr_of ''Rule1'',
         [(pystr_of ''name'', pystr_of ''ADP''), (pystr_of ''enabled'', pystr_of ''True''),
          (pystr_of ''source_ae'', pystr_of ''TR_SEND''),
          (pystr_of ''target_nodes'', pystr_of ''ORGANO''),
          (pystr_of ''plan_label_match'', pystr_of ''ADP'')])]"

definition disabled_rules :: config where
  "disabled_rules =
     [(pystr_of ''General'', [(pystr_of ''rules_enabled'', pystr_of ''False'')]),
      (pystr_of ''Rule1'',
         [(pystr_of ''name'', pystr_of ''ADP''), (pystr_of ''enabled'', pystr_of ''True''),
          (pystr_of ''source_ae'', pystr_of ''TR_SEND''),
          (pystr_of ''target_nodes'', pystr_of ''ORGANO''),
          (pystr_of ''plan_label_match'', pystr_of ''ADP'')])]"

definition example_settings :: config where
  "example_settings =
     [(pystr_of ''DicomNode1'',
         [(pystr_of ''name'', pystr_of ''ORGANO''), (pystr_of ''aet'', pystr_of ''ORG''),
          (pystr_of ''ip'', pystr_of ''10.0.0.1''), (pystr_of ''port'', pystr_of ''104''),
          (pystr_of ''enabled'', pystr_of ''True'')])]"

definition example_node :: node where
  "example_node = \<lparr>node_name = pystr_of ''ORGANO'', node_aet = pystr_of ''ORG'',
     node_ip = pystr_of ''10.0.0.1'', node_port = pystr_of ''104'', node_enabled = True\<rparr>"

definition example_dataset :: "string \<Rightarrow> dataset" where
  "example_dataset m = \<lparr>Modality = Some (pystr_of m), PatientID = Some (pystr_of ''P42''),
     PatientName = Some (pystr_of ''Doe''), SOPInstanceUID = Some (pystr_of ''1.2.3''),
     StudyInstanceUID = Some (pystr_of ''1.2.77''), FrameOfReferenceUID = None,
     RTPlanLabel = None, ReferencedRTPlanSequence = None, SeriesDescription = None,
     StudyDescription = None, MediaStorageSOPInstanceUID = None,
     SourceApplicationEntityTitle = None, payload = 0\<rparr>"

definition example_plan_path :: path where
  "example_plan_path = [pystr_of ''received'', pystr_of ''Doe (P42)'', pystr_of ''Head_77'']"

definition example_fs :: filesystem where
  "example_fs =
     [(example_plan_path @ [pystr_of ''RTDOSE_Head.dcm''], DicomFile (example_dataset ''RTDOSE'')),
      (example_plan_path @ [pystr_of ''CT.1.dcm''], DicomFile (example_dataset ''CT'')),
      (example_plan_path @ [pystr_of ''RTPLAN_Head.dcm''], DicomFile (example_dataset ''RTPLAN''))]"

definition example_time :: datetime where
  "example_time = \<lparr>year = 2025, month = 3, day = 9, hour = 7, minute = 5, second = 1,
     epoch = 1741503901\<rparr>"

definition example_clock :: "nat \<Rightarrow> datetime" where
  "example_clock n = example_time"

definition example_world :: world where
  "example_world = \<lparr>files = example_fs, clock = example_clock, ticks = 0\<rparr>"

definition is_digit :: "codepoint \<Rightarrow> bool" where
  "is_digit c \<longleftrightarrow> 48 \<le> c \<and> c \<le> 57"

text \<open>A peer that accepts the association and every object but the plan.\<close>

definition example_answers :: "path \<Rightarrow> store_result" where
  "example_answers p =
     (if p = example_plan_path @ [pystr_of ''RTPLAN_Head.dcm''] then Status 0xA700 else Status 0)"

definition example_net :: network where
  "example_net = \<lparr>associate = Established, send_c_store = example_answers\<rparr>"

definition example_batch_pairs :: "(path \<times> dataset) list" where
  "example_batch_pairs =
     [(example_plan_path @ [pystr_of ''CT.1.dcm''], example_dataset ''CT''),
      (example_plan_path @ [pystr_of ''RTPLAN_Head.dcm''], example_dataset ''RTPLAN''),
      (example_plan_path @ [pystr_of ''RTDOSE_Head.dcm''], example_dataset ''RTDOSE'')]"

definition example_failed_folder :: path where
  "example_failed_folder = [pystr_of ''received'', pystr_of ''failed'']"

definition example_watch_folder :: path where
  "example_watch_folder = [pystr_of ''received'']"

section \<open>Receiving over the wire (dicom_processor.py)\<close>

text \<open>
  \<^verbatim>\<open>getattr(ds, name, default)\<close> for the attributes that the receiver and the grouper
  read with a default.
\<close>

definition attr_or :: "pystr \<Rightarrow> pystr option \<Rightarrow> pystr" where
  "attr_or dflt a = (case a of Some v \<Rightarrow> v | None \<Rightarrow> dflt)"

definition patient_id_of :: "dataset \<Rightarrow> pystr" where
  "patient_id_of ds = attr_or (pystr_of ''unknown'') (PatientID ds)"

definition patient_name_of :: "dataset \<Rightarrow> pystr" where
  "patient_name_of ds = attr_or (pystr_of ''unknown'') (PatientName ds)"

definition sop_instance_uid_of :: "dataset \<Rightarrow> pystr" where
  "sop_instance_uid_of ds = attr_or (pystr_of ''unknown'') (SOPInstanceUID ds)"

definition study_uid_of :: "dataset \<Rightarrow> pystr" where
  "study_uid_of ds = attr_or (pystr_of ''unknown'') (StudyInstanceUID ds)"

definition frame_ref_uid_of :: "dataset \<Rightarrow> pystr" where
  "frame_ref_uid_of ds = attr_or (pystr_of ''unknown'') (FrameOfReferenceUID ds)"

definition plan_name_of :: "dataset \<Rightarrow> pystr" where
  "plan_name_of ds = attr_or (pystr_of ''unknown'') (RTPlanLabel ds)"

text \<open>
  The reference of a dose to its plan:
  \<^verbatim>\<open>
  dose_ref_uid = None
  if hasattr(dose_ds, "ReferencedRTPlanSequence") and dose_ds.ReferencedRTPlanSequence
     and hasattr(dose_ds.ReferencedRTPlanSequence[0], "ReferencedSOPInstanceUID"):
      dose_ref_uid = dose_ds.ReferencedRTPlanSequence[0].ReferencedSOPInstanceUID
  \<close>
\<close>

definition dose_ref_uid :: "dataset \<Rightarrow> pystr option" where
  "dose_ref_uid ds =
     (case ReferencedRTPlanSequence ds of
        None \<Rightarrow> None
      | Some [] \<Rightarrow> None
      | Some (item # items) \<Rightarrow> item)"

text \<open>
  The block that the receiver and the grouper run before every \<^verbatim>\<open>dcmwrite\<close>:
  \<^verbatim>\<open>
  if not hasattr(ds, 'SOPInstanceUID') or not ds.SOPInstanceUID:
      if hasattr(ds.file_meta, 'MediaStorageSOPInstanceUID'):
          ds.SOPInstanceUID = ds.file_meta.MediaStorageSOPInstanceUID
      else:
          new_uid = generate_uid()
          ds.SOPInstanceUID = new_uid
          ds.file_meta.MediaStorageSOPInstanceUID = new_uid
  if hasattr(ds, 'SOPInstanceUID') and ds.SOPInstanceUID:
      ds.file_meta.MediaStorageSOPInstanceUID = ds.SOPInstanceUID
  \<close>
\<close>

definition ensure_uids :: "pystr \<Rightarrow> dataset \<Rightarrow> dataset" where
  "ensure_uids new_uid ds =
     (let ds1 = (if SOPInstanceUID ds = None \<or> SOPInstanceUID ds = Some []
                 then (case MediaStorageSOPInstanceUID ds of
                         Some m \<Rightarrow> ds\<lparr>SOPInstanceUID := Some m\<rparr>
                       | None \<Rightarrow> ds\<lparr>SOPInstanceUID := Some new_uid,
                                     MediaStorageSOPInstanceUID := Some new_uid\<rparr>)
                 else ds)
      in if SOPInstanceUID ds1 \<noteq> None \<and> SOPInstanceUID ds1 \<noteq> Some []
         then ds1\<lparr>MediaStorageSOPInstanceUID := SOPInstanceUID ds1\<rparr>
         else ds1)"

text \<open>
  A C-STORE request as \<^verbatim>\<open>handle_store\<close> sees it: the decoded object with the file
  meta of the event (\<^verbatim>\<open>event.dataset\<close>, \<^verbatim>\<open>event.file_meta\<close>); the bytes of the data
  set as they came (\<^verbatim>\<open>event.request.DataSet.getvalue()\<close>), as a file holds them: the
  bare data set of the object or, when the transfer syntax deflates the stream, bytes
  that are no DICOM data; the AE title of the requestor; the hexadecimal text that
  \<^verbatim>\<open>uuid.uuid4().hex\<close> returns for this request; the UID that \<^verbatim>\<open>generate_uid()\<close>
  returns if it is called; and, if creating the folder or writing the staged file raises,
  the exception and what the write has left at the staged path.
\<close>

record store_event =
  ev_dataset :: dataset
  ev_request_bytes :: file_content
  ev_requestor_ae :: "pystr option"
  ev_uuid :: pystr
  ev_new_uid :: pystr
  ev_write_error :: "py_error option"
  ev_left_behind :: "file_content option"

text \<open>
  \<^verbatim>\<open>
  patient_id = getattr(ds, "PatientID", "unknown")
  study_uid = getattr(ds, "StudyInstanceUID", "unknown")
  modality = getattr(ds, "Modality", "unknown")
  buffer_key = (str(patient_id), str(study_uid))
  key_dir = os.path.join(temp_dir_base, f"{patient_id}_{study_uid}")
  unique_name = f"{modality}_{uuid.uuid4().hex}.dcm"
  temp_file_path = os.path.join(key_dir, unique_name)
  \<close>
\<close>

definition buffer_key_of :: "dataset \<Rightarrow> pystr \<times> pystr" where
  "buffer_key_of ds = (patient_id_of ds, study_uid_of ds)"

text \<open>
  The two texts are joined as they are, so a separator in the patient ID, the study UID
  or the modality makes further folders, \<^verbatim>\<open>..\<close> steps up, and a text that starts with
  the separator starts from the root. \<open>os_path_join\<close> is the place in the tree of files
  that \<^verbatim>\<open>os.path.join(base, text)\<close> names on a POSIX system.
\<close>

fun resolve :: "path \<Rightarrow> pystr list \<Rightarrow> path" where
  "resolve base [] = base"
| "resolve base (c # cs) =
     (if c = [] \<or> c = pystr_of ''.'' then resolve base cs
      else if c = pystr_of ''..'' then resolve (butlast base) cs
      else resolve (base @ [c]) cs)"

definition os_path_join :: "path \<Rightarrow> pystr \<Rightarrow> path" where
  "os_path_join base t =
     (if t \<noteq> [] \<and> hd t = 47 then resolve [] (py_split 47 t)
      else resolve base (py_split 47 t))"

definition temp_file_path :: "path \<Rightarrow> store_event \<Rightarrow> path" where
  "temp_file_path temp_dir_base ev =
     (let ds = ev_dataset ev;
          key_dir = os_path_join temp_dir_base
                      (patient_id_of ds @ pystr_of ''_'' @ study_uid_of ds);
          unique_name = attr_or (pystr_of ''unknown'') (Modality ds) @ pystr_of ''_'' @
                        ev_uuid ev @ pystr_of ''.dcm''
      in os_path_join key_dir unique_name)"

text \<open>
  What is staged. For an RTDOSE the bytes of the request are written as they came:
  \<^verbatim>\<open>
  if modality == "RTDOSE":
      with open(temp_file_path, 'wb') as f:
          f.write(event.request.DataSet.getvalue())
  else:
      pydicom.dcmwrite(temp_file_path, ds, write_like_original=False)
  \<close>
  Every other object is written in the file format, after the AE title of the requestor
  was stored in its file meta and its UIDs were ensured.
\<close>

definition staged_content :: "store_event \<Rightarrow> file_content" where
  "staged_content ev =
     (let ds0 = ev_dataset ev;
          ds = (case ev_requestor_ae ev of
                  Some ae \<Rightarrow> ds0\<lparr>SourceApplicationEntityTitle := Some ae\<rparr>
                | None \<Rightarrow> ds0)
      in if attr_or (pystr_of ''unknown'') (Modality ds) = pystr_of ''RTDOSE''
         then ev_request_bytes ev
         else DicomFile (ensure_uids (ev_new_uid ev) ds))"

text \<open>
  \<^verbatim>\<open>handle_store\<close>: the file is staged, its path is appended to the bucket of its
  key, and the status is \<^verbatim>\<open>0x0000\<close>. An exception while staging ends in
  \<^verbatim>\<open>return 0xC001\<close> before the bucket is touched; nothing removes what the write has
  left at the staged path.
\<close>

definition handle_store :: "path \<Rightarrow> store_event \<Rightarrow> station \<Rightarrow> status \<times> station" where
  "handle_store temp_dir_base ev st =
     (case ev_write_error ev of
        Some e \<Rightarrow>
          (case ev_left_behind ev of
             None \<Rightarrow> (0xC001, st)
           | Some partial \<Rightarrow>
               (0xC001,
                st\<lparr>disk := (disk st)\<lparr>files :=
                     fs_write (files (disk st)) (temp_file_path temp_dir_base ev) partial\<rparr>\<rparr>))
      | None \<Rightarrow>
          (let buffer_key = buffer_key_of (ev_dataset ev);
               temp_path = temp_file_path temp_dir_base ev;
               w = disk st;
               bucket = (case map_of (receive_buffer st) buffer_key of
                           Some staged \<Rightarrow> staged | None \<Rightarrow> [])
           in (0x0000,
               st\<lparr>disk := w\<lparr>files := fs_write (files w) temp_path (staged_content ev)\<rparr>,
                  receive_buffer :=
                    AList.update buffer_key (bucket @ [temp_path]) (receive_buffer st)\<rparr>)))"

section \<open>The plan grouper of received files (dicom_processor.py)\<close>

text \<open>
  The first loop of \<^verbatim>\<open>_group_and_move_received_files\<close>: every file of the list is
  read; a file that cannot be read is logged and skipped. The dataset read for a path
  (\<^verbatim>\<open>file_data[file_path]['ds']\<close>) is carried with the path.
\<close>

definition read_received :: "filesystem \<Rightarrow> path list \<Rightarrow> (path \<times> dataset) list" where
  "read_received fs file_list =
     List.map_filter (\<lambda>p. case dcmread_force fs p of Inr ds \<Rightarrow> Some (p, ds) | Inl e \<Rightarrow> None) file_list"

definition has_modality :: "string \<Rightarrow> path \<times> dataset \<Rightarrow> bool" where
  "has_modality m pd \<longleftrightarrow> modality_or (pystr_of ''UNKNOWN'') (snd pd) = pystr_of m"

definition plan_files_of :: "(path \<times> dataset) list \<Rightarrow> (path \<times> dataset) list" where
  "plan_files_of file_data = filter (has_modality ''RTPLAN'') file_data"

definition ct_files_of :: "(path \<times> dataset) list \<Rightarrow> (path \<times> dataset) list" where
  "ct_files_of file_data = filter (has_modality ''CT'') file_data"

definition structure_files_of :: "(path \<times> dataset) list \<Rightarrow> (path \<times> dataset) list" where
  "structure_files_of file_data = filter (has_modality ''RTSTRUCT'') file_data"

definition other_files_of :: "(path \<times> dataset) list \<Rightarrow> (path \<times> dataset) list" where
  "other_files_of file_data =
     filter (\<lambda>pd. \<not> has_modality ''RTPLAN'' pd \<and> \<not> has_modality ''CT'' pd \<and>
                  \<not> has_modality ''RTSTRUCT'' pd) file_data"

text \<open>
  The grouping loop (lines 283 to 310). For every plan in turn the entry of its SOP
  instance UID in \<^verbatim>\<open>plan_ref_map\<close> is set to the other files whose reference equals
  that UID, and the entry of its frame of reference in \<^verbatim>\<open>frame_ref_map\<close> to the CT
  files and then the structure files of that frame of reference.
  \<^verbatim>\<open>
  if dose_ref_uid == plan_sop_uid:
      plan_ref_map[plan_sop_uid].append(dose_file)
  \<close>
\<close>

type_synonym ref_map = "(pystr \<times> (path \<times> dataset) list) list"

definition lookup_ref :: "ref_map \<Rightarrow> pystr \<Rightarrow> (path \<times> dataset) list" where
  "lookup_ref m uid = (case map_of m uid of Some entries \<Rightarrow> entries | None \<Rightarrow> [])"

definition same_frame :: "pystr \<Rightarrow> path \<times> dataset \<Rightarrow> bool" where
  "same_frame frame_uid pd \<longleftrightarrow> frame_ref_uid_of (snd pd) = frame_uid"

fun build_ref_maps ::
  "(path \<times> dataset) list \<Rightarrow> (path \<times> dataset) list \<Rightarrow> (path \<times> dataset) list \<Rightarrow>
   (path \<times> dataset) list \<Rightarrow> ref_map \<times> ref_map \<Rightarrow> ref_map \<times> ref_map" where
  "build_ref_maps [] other_files ct_files structure_files maps = maps"
| "build_ref_maps ((plan_file, plan_ds) # rest) other_files ct_files structure_files maps =
     (let plan_sop_uid = sop_instance_uid_of plan_ds;
          doses = filter (\<lambda>dose. dose_ref_uid (snd dose) = Some plan_sop_uid) other_files;
          frame_uid = frame_ref_uid_of plan_ds;
          related = filter (same_frame frame_uid) ct_files @
                    filter (same_frame frame_uid) structure_files
      in build_ref_maps rest other_files ct_files structure_files
           (AList.update plan_sop_uid doses (fst maps),
            AList.update frame_uid related (snd maps)))"

text \<open>
  File operations of the placing loop. \<^verbatim>\<open>shutil.copy2\<close> raises when the source is
  missing or is the destination itself, \<^verbatim>\<open>shutil.move\<close> when the source is missing.
  The UID that \<^verbatim>\<open>generate_uid()\<close> returns for an object written without any UID is
  given by the destination written.
\<close>

definition remove_existing :: "filesystem \<Rightarrow> path \<Rightarrow> filesystem" where
  "remove_existing fs p = (if path_exists fs p then os_remove fs p else fs)"

definition copy2 :: "filesystem \<Rightarrow> path \<Rightarrow> path \<Rightarrow> py_error + filesystem" where
  "copy2 fs src dst =
     (case map_of fs src of
        None \<Rightarrow> Inl OSError
      | Some c \<Rightarrow> if src = dst then Inl OSError else Inr (fs_write fs dst c))"

definition shutil_move :: "filesystem \<Rightarrow> path \<Rightarrow> path \<Rightarrow> py_error + filesystem" where
  "shutil_move fs src dst =
     (case map_of fs src of
        None \<Rightarrow> Inl OSError
      | Some c \<Rightarrow> if src = dst then Inr fs else Inr (os_remove (fs_write fs dst c) src))"

definition write_ensured ::
  "(path \<Rightarrow> pystr) \<Rightarrow> filesystem \<Rightarrow> path \<Rightarrow> path \<Rightarrow> py_error + filesystem" where
  "write_ensured generate_uid fs src dst =
     (case dcmread_force fs src of
        Inl e \<Rightarrow> Inl e
      | Inr ds \<Rightarrow> Inr (fs_write fs dst (DicomFile (ensure_uids (generate_uid dst) ds))))"

text \<open>
  The plan file: an existing destination is removed; the file is read, written to the
  destination with its UIDs ensured, and removed; if that raises, it is moved. The
  result is the exception that leaves the block, if any, and the files at that moment.
\<close>

definition place_plan_file ::
  "(path \<Rightarrow> pystr) \<Rightarrow> path \<Rightarrow> path \<Rightarrow> filesystem \<Rightarrow> py_error option \<times> filesystem" where
  "place_plan_file generate_uid plan_file_path dest_path fs =
     (let fs1 = remove_existing fs dest_path in
      case write_ensured generate_uid fs1 plan_file_path dest_path of
        Inr fs2 \<Rightarrow> (None, os_remove fs2 plan_file_path)
      | Inl e \<Rightarrow>
          (case shutil_move fs1 plan_file_path dest_path of
             Inr fs2 \<Rightarrow> (None, fs2)
           | Inl e2 \<Rightarrow> (Some e2, fs1)))"

text \<open>
  A dose file of the plan: an existing destination is removed; the header is read, the
  file is copied and the source removed; if that raises, copy and remove are tried
  again, and if that raises too, the file is moved.
\<close>

definition copy_and_remove :: "filesystem \<Rightarrow> path \<Rightarrow> path \<Rightarrow> py_error + filesystem" where
  "copy_and_remove fs src dst =
     (case copy2 fs src dst of
        Inl e \<Rightarrow> Inl e
      | Inr fs1 \<Rightarrow> Inr (os_remove fs1 src))"

definition place_dose_file :: "path \<Rightarrow> path \<Rightarrow> filesystem \<Rightarrow> py_error option \<times> filesystem" where
  "place_dose_file dose_file_path dose_dest_path fs =
     (let fs1 = remove_existing fs dose_dest_path;
          first_try = (case dcmread_force fs1 dose_file_path of
                         Inl e \<Rightarrow> Inl e
                       | Inr ds \<Rightarrow> copy_and_remove fs1 dose_file_path dose_dest_path)
      in case first_try of
           Inr fs2 \<Rightarrow> (None, fs2)
         | Inl e \<Rightarrow>
             (case copy_and_remove fs1 dose_file_path dose_dest_path of
                Inr fs2 \<Rightarrow> (None, fs2)
              | Inl e2 \<Rightarrow>
                  (case shutil_move fs1 dose_file_path dose_dest_path of
                     Inr fs2 \<Rightarrow> (None, fs2)
                   | Inl e3 \<Rightarrow> (Some e3, fs1))))"

text \<open>
  The loop over the dose files of a plan. All of them are placed under one name,
  \<^verbatim>\<open>RTDOSE_<safe_plan_name>.dcm\<close>. The loop returns the exception that ends it, if
  any, the files, and the dose files it has placed.
\<close>

fun place_dose_files ::
  "path \<Rightarrow> (path \<times> dataset) list \<Rightarrow> filesystem \<Rightarrow>
   py_error option \<times> filesystem \<times> (path \<times> dataset) list" where
  "place_dose_files dose_dest_path [] fs = (None, fs, [])"
| "place_dose_files dose_dest_path (dose # rest) fs =
     (case place_dose_file (fst dose) dose_dest_path fs of
        (Some e, fs1) \<Rightarrow> (Some e, fs1, [])
      | (None, fs1) \<Rightarrow>
          (let (r, fs2, placed) = place_dose_files dose_dest_path rest fs1
           in (r, fs2, dose # placed)))"

text \<open>
  A CT or structure file of the frame of reference of the plan: an existing destination
  is removed; the file is read and written to the destination with its UIDs ensured; if
  that raises, it is copied. The source stays.
\<close>

definition place_related_file ::
  "(codepoint \<Rightarrow> bool) \<Rightarrow> (path \<Rightarrow> pystr) \<Rightarrow> path \<Rightarrow> pystr \<Rightarrow> path \<times> dataset \<Rightarrow>
   filesystem \<Rightarrow> py_error option \<times> filesystem" where
  "place_related_file W generate_uid plan_folder safe_plan_name related fs =
     (let related_modality = modality_or (pystr_of ''UNKNOWN'') (snd related);
          dest_name =
            (if related_modality = pystr_of ''CT''
             then Some (pystr_of ''CT.'' @
                    sanitize_path_component W (sop_instance_uid_of (snd related)) @ pystr_of ''.dcm'')
             else if related_modality = pystr_of ''RTSTRUCT''
             then Some (pystr_of ''RTSTRUCT_'' @ safe_plan_name @ pystr_of ''.dcm'')
             else None)
      in case dest_name of
           None \<Rightarrow> (None, fs)
         | Some name \<Rightarrow>
             (let dest_path = plan_folder @ [name];
                  fs1 = remove_existing fs dest_path
              in case write_ensured generate_uid fs1 (fst related) dest_path of
                   Inr fs2 \<Rightarrow> (None, fs2)
                 | Inl e \<Rightarrow>
                     (case copy2 fs1 (fst related) dest_path of
                        Inr fs2 \<Rightarrow> (None, fs2)
                      | Inl e2 \<Rightarrow> (Some e2, fs1))))"

fun place_related_files ::
  "(codepoint \<Rightarrow> bool) \<Rightarrow> (path \<Rightarrow> pystr) \<Rightarrow> path \<Rightarrow> pystr \<Rightarrow> (path \<times> dataset) list \<Rightarrow>
   filesystem \<Rightarrow> py_error option \<times> filesystem" where
  "place_related_files W generate_uid plan_folder safe_plan_name [] fs = (None, fs)"
| "place_related_files W generate_uid plan_folder safe_plan_name (related # rest) fs =
     (case place_related_file W generate_uid plan_folder safe_plan_name related fs of
        (Some e, fs1) \<Rightarrow> (Some e, fs1)
      | (None, fs1) \<Rightarrow> place_related_files W generate_uid plan_folder safe_plan_name rest fs1)"

text \<open>
  The plan folder of a plan, and the body of the placing loop (lines 312 to 508) for one
  plan. An exception inside the body is logged by the handler of the loop, and the
  loop goes on with the next plan. Beside the files the loop keeps the list of the
  doses it has placed, each with the plan whose folder it went to.
\<close>

definition plan_folder_of :: "(codepoint \<Rightarrow> bool) \<Rightarrow> path \<Rightarrow> dataset \<Rightarrow> path" where
  "plan_folder_of W watch_folder plan_ds =
     watch_folder @
       [patient_folder_name W (patient_name_of plan_ds) (patient_id_of plan_ds),
        plan_folder_name W (plan_name_of plan_ds) (study_uid_of plan_ds)]"

type_synonym dose_placements = "((path \<times> dataset) \<times> (path \<times> dataset)) list"

definition place_received_plan ::
  "(codepoint \<Rightarrow> bool) \<Rightarrow> path \<Rightarrow> (path \<Rightarrow> pystr) \<Rightarrow> ref_map \<times> ref_map \<Rightarrow> path \<times> dataset \<Rightarrow>
   filesystem \<times> dose_placements \<Rightarrow> filesystem \<times> dose_placements" where
  "place_received_plan W watch_folder generate_uid maps plan acc =
     (let plan_ds = snd plan;
          safe_plan_name = sanitize_path_component W (plan_name_of plan_ds);
          plan_folder = plan_folder_of W watch_folder plan_ds;
          dest_path = plan_folder @ [pystr_of ''RTPLAN_'' @ safe_plan_name @ pystr_of ''.dcm'']
      in case place_plan_file generate_uid (fst plan) dest_path (fst acc) of
           (Some e, fs1) \<Rightarrow> (fs1, snd acc)
         | (None, fs1) \<Rightarrow>
             (let dose_dest_path =
                    plan_folder @ [pystr_of ''RTDOSE_'' @ safe_plan_name @ pystr_of ''.dcm''];
                  (r, fs2, placed) =
                    place_dose_files dose_dest_path
                      (lookup_ref (fst maps) (sop_instance_uid_of plan_ds)) fs1;
                  placements = snd acc @ map (Pair plan) placed
              in case r of
                   Some e \<Rightarrow> (fs2, placements)
                 | None \<Rightarrow>
                     (let frame_uid = frame_ref_uid_of plan_ds;
                          related = (if frame_uid \<noteq> [] then lookup_ref (snd maps) frame_uid else [])
                      in (snd (place_related_files W generate_uid plan_folder safe_plan_name
                                 related fs2),
                          placements))))"

text \<open>
  \<^verbatim>\<open>_group_and_move_received_files\<close> up to the end of its cleanup loop:
  \<^verbatim>\<open>
  # Remove temp files for any files not grouped (orphans)
  for file_path in file_list:
      if os.path.exists(file_path):
          os.remove(file_path)
  \<close>
  The stage that follows evaluates the forwarding rules for every plan and calls
  \<^verbatim>\<open>send_plan_to_node(plan_folder, node_info)\<close>, which sends without deleting and so
  leaves the files as they are.
\<close>

definition group_and_move_received_files ::
  "(codepoint \<Rightarrow> bool) \<Rightarrow> path \<Rightarrow> (path \<Rightarrow> pystr) \<Rightarrow> path list \<Rightarrow> world \<Rightarrow>
   world \<times> dose_placements" where
  "group_and_move_received_files W watch_folder generate_uid file_list w =
     (let file_data = read_received (files w) file_list;
          plan_files = plan_files_of file_data;
          maps = build_ref_maps plan_files (other_files_of file_data) (ct_files_of file_data)
                   (structure_files_of file_data) ([], []);
          (fs1, placements) =
            fold (place_received_plan W watch_folder generate_uid maps) plan_files (files w, []);
          fs2 = fold (\<lambda>file_path fs. remove_existing fs file_path) file_list fs1
      in (w\<lparr>files := fs2\<rparr>, placements))"

text \<open>
  \<^verbatim>\<open>flush_buffer_after_timeout\<close> once its inactivity test has passed: the bucket of
  the key is popped and, if it is not empty, handed to the grouper.
  \<^verbatim>\<open>
  file_list = receive_buffer.pop(buffer_key, [])
  if not file_list: return
  self._group_and_move_received_files(file_list)
  \<close>
\<close>

definition flush_buffer ::
  "(codepoint \<Rightarrow> bool) \<Rightarrow> path \<Rightarrow> (path \<Rightarrow> pystr) \<Rightarrow> pystr \<times> pystr \<Rightarrow> station \<Rightarrow>
   station \<times> dose_placements" where
  "flush_buffer W watch_folder generate_uid buffer_key st =
     (let file_list = (case map_of (receive_buffer st) buffer_key of
                         Some staged \<Rightarrow> staged | None \<Rightarrow> []);
          st1 = st\<lparr>receive_buffer := AList.delete buffer_key (receive_buffer st)\<rparr>
      in if file_list = [] then (st1, [])
         else (let (w, placements) =
                     group_and_move_received_files W watch_folder generate_uid file_list (disk st1)
               in (st1\<lparr>disk := w\<rparr>, placements)))"

section \<open>Concrete inputs of the receiver\<close>

text \<open>
  A station with an empty disk and an empty receive buffer, and the C-STORE request of
  a CT image.
\<close>

definition example_temp_dir :: path where
  "example_temp_dir = [pystr_of ''tmp'', pystr_of ''dicom_receive_x1'']"

definition empty_station :: station where
  "empty_station = \<lparr>disk = \<lparr>files = [], clock = example_clock, ticks = 0\<rparr>, receive_buffer = []\<rparr>"

definition example_generate_uid :: "path \<Rightarrow> pystr" where
  "example_generate_uid p = pystr_of ''2.25.7''"

definition example_key :: "pystr \<times> pystr" where
  "example_key = (pystr_of ''P42'', pystr_of ''1.2.77'')"

definition example_ct_event :: store_event where
  "example_ct_event =
     \<lparr>ev_dataset = example_dataset ''CT'', ev_request_bytes = BareDataset (example_dataset ''CT''),
      ev_requestor_ae = Some (pystr_of ''TR_SEND''),
      ev_uuid = pystr_of ''0123456789abcdef0123456789abcdef'', ev_new_uid = pystr_of ''2.25.9'',
      ev_write_error = None, ev_left_behind = None\<rparr>"

section \<open>Importing a folder (dicom_processor.py)\<close>

text \<open>
  The reading loop of \<^verbatim>\<open>process_import_folder\<close> over the files that \<^verbatim>\<open>os.walk\<close> finds
  below the import folder, which the model takes to exist:
  \<^verbatim>\<open>
  if file_path.lower().endswith(".dcm"):
      try:
          ds_header = pydicom.dcmread(file_path, force=True, stop_before_pixels=True)
          ...
      except Exception as e:
          self.move_to_failed(file_path, f"Lesefehler: {str(e)}")
  \<close>
\<close>

definition files_below :: "filesystem \<Rightarrow> path \<Rightarrow> path list" where
  "files_below fs folder = filter (strict_prefix folder) (map fst fs)"

fun read_import_files ::
  "path \<Rightarrow> path list \<Rightarrow> world \<Rightarrow> (path \<times> dataset) list \<times> world" where
  "read_import_files failed_folder [] w = ([], w)"
| "read_import_files failed_folder (file_path # rest) w =
     (if is_dcm_name (join_path file_path)
      then (case dcmread_force (files w) file_path of
              Inr ds \<Rightarrow>
                (let (file_data, w1) = read_import_files failed_folder rest w
                 in ((file_path, ds) # file_data, w1))
            | Inl e \<Rightarrow>
                read_import_files failed_folder rest
                  (move_to_failed failed_folder file_path (pystr_of ''Lesefehler: '' @ exc_text e) w))
      else read_import_files failed_folder rest w)"

text \<open>
  Phase 1. The entry of a plan in \<^verbatim>\<open>plan_ref_map\<close> takes the other files whose
  reference equals the UID of the plan and whose patient ID equals that of the plan:
  \<^verbatim>\<open>
  if dose_ref_uid == plan_sop_uid and dose_patient_id == plan_patient_id:
      plan_ref_map[plan_sop_uid].append(dose_file)
  elif dose_ref_uid == plan_sop_uid and dose_patient_id != plan_patient_id:
      logger.warning(f"Dose-PatientID-Mismatch: ...")
  \<close>
\<close>

definition dose_matches :: "pystr \<Rightarrow> pystr \<Rightarrow> path \<times> dataset \<Rightarrow> bool" where
  "dose_matches plan_sop_uid plan_patient_id dose \<longleftrightarrow>
     dose_ref_uid (snd dose) = Some plan_sop_uid \<and> patient_id_of (snd dose) = plan_patient_id"

fun build_import_ref_maps ::
  "(path \<times> dataset) list \<Rightarrow> (path \<times> dataset) list \<Rightarrow> (path \<times> dataset) list \<Rightarrow>
   (path \<times> dataset) list \<Rightarrow> ref_map \<times> ref_map \<Rightarrow> ref_map \<times> ref_map" where
  "build_import_ref_maps [] other_files ct_files structure_files maps = maps"
| "build_import_ref_maps ((plan_file, plan_ds) # rest) other_files ct_files structure_files maps =
     (let plan_sop_uid = sop_instance_uid_of plan_ds;
          doses = filter (dose_matches plan_sop_uid (patient_id_of plan_ds)) other_files;
          frame_uid = frame_ref_uid_of plan_ds;
          related = filter (same_frame frame_uid) ct_files @
                    filter (same_frame frame_uid) structure_files
      in build_import_ref_maps rest other_files ct_files structure_files
           (AList.update plan_sop_uid doses (fst maps),
            AList.update frame_uid related (snd maps)))"

text \<open>
  Phase 2 copies with \<^verbatim>\<open>shutil.copy2\<close> after removing an existing destination.
\<close>

definition replace_by_copy :: "filesystem \<Rightarrow> path \<Rightarrow> path \<Rightarrow> py_error option \<times> filesystem" where
  "replace_by_copy fs src dst =
     (let fs1 = remove_existing fs dst in
      case copy2 fs1 src dst of
        Inl e \<Rightarrow> (Some e, fs1)
      | Inr fs2 \<Rightarrow> (None, fs2))"

text \<open>
  The loop over the doses of the entry of the plan checks each dose again before it is
  copied:
  \<^verbatim>\<open>
  if dose_ref_uid == plan_sop_uid and dose_patient_id == patient_id:
      ...
      shutil.copy2(dose_file_path, dose_dest_path)
  else:
      logger.warning(f"Dosis-Datei NICHT importiert: ...")
  \<close>
  It returns the exception that ends it, if any, the files, and the doses copied.
\<close>

fun import_dose_files ::
  "pystr \<Rightarrow> pystr \<Rightarrow> path \<Rightarrow> (path \<times> dataset) list \<Rightarrow> filesystem \<Rightarrow>
   py_error option \<times> filesystem \<times> (path \<times> dataset) list" where
  "import_dose_files plan_sop_uid patient_id dose_dest_path [] fs = (None, fs, [])"
| "import_dose_files plan_sop_uid patient_id dose_dest_path (dose # rest) fs =
     (if dose_matches plan_sop_uid patient_id dose
      then (case replace_by_copy fs (fst dose) dose_dest_path of
              (Some e, fs1) \<Rightarrow> (Some e, fs1, [])
            | (None, fs1) \<Rightarrow>
                (let (r, fs2, copied) =
                       import_dose_files plan_sop_uid patient_id dose_dest_path rest fs1
                 in (r, fs2, dose # copied)))
      else import_dose_files plan_sop_uid patient_id dose_dest_path rest fs)"

text \<open>
  The loop over the CT and structure files of the frame of reference of the plan skips
  a file of another patient. It returns the exception that ends it, if any, the files,
  and the number of files copied.
\<close>

definition related_dest_name :: "(codepoint \<Rightarrow> bool) \<Rightarrow> pystr \<Rightarrow> dataset \<Rightarrow> pystr option" where
  "related_dest_name W safe_plan_name ds =
     (let related_modality = modality_or (pystr_of ''UNKNOWN'') ds in
      if related_modality = pystr_of ''CT''
      then Some (pystr_of ''CT.'' @ sanitize_path_component W (sop_instance_uid_of ds) @
                 pystr_of ''.dcm'')
      else if related_modality = pystr_of ''RTSTRUCT''
      then Some (pystr_of ''RTSTRUCT_'' @ safe_plan_name @ pystr_of ''.dcm'')
      else None)"

fun import_related_files ::
  "(codepoint \<Rightarrow> bool) \<Rightarrow> path \<Rightarrow> pystr \<Rightarrow> pystr \<Rightarrow> (path \<times> dataset) list \<Rightarrow> filesystem \<Rightarrow>
   py_error option \<times> filesystem \<times> nat" where
  "import_related_files W plan_folder safe_plan_name patient_id [] fs = (None, fs, 0)"
| "import_related_files W plan_folder safe_plan_name patient_id (related # rest) fs =
     (if patient_id_of (snd related) \<noteq> patient_id
      then import_related_files W plan_folder safe_plan_name patient_id rest fs
      else (case related_dest_name W safe_plan_name (snd related) of
              None \<Rightarrow> import_related_files W plan_folder safe_plan_name patient_id rest fs
            | Some name \<Rightarrow>
                (case replace_by_copy fs (fst related) (plan_folder @ [name]) of
                   (Some e, fs1) \<Rightarrow> (Some e, fs1, 0)
                 | (None, fs1) \<Rightarrow>
                     (let (r, fs2, n) =
                            import_related_files W plan_folder safe_plan_name patient_id rest fs1
                      in (r, fs2, Suc n)))))"

text \<open>
  The state of the phases 2 and 3: the world, the counters \<^verbatim>\<open>processed\<close> and
  \<^verbatim>\<open>failed\<close>, and the doses copied so far, each with the plan whose folder it went to.
\<close>

record import_state =
  import_world :: world
  import_processed :: nat
  import_failed :: nat
  dose_copies :: dose_placements

text \<open>
  The body of the loop of phase 2 for one plan. An exception inside it is handled by
  \<^verbatim>\<open>
  self.move_to_failed(plan_file_path, f"Plan-Import-Fehler: {str(e)}")
  failed += 1
  \<close>
\<close>

definition plan_import_failed :: "path \<Rightarrow> path \<Rightarrow> py_error \<Rightarrow> import_state \<Rightarrow> import_state" where
  "plan_import_failed failed_folder plan_file_path e s =
     s\<lparr>import_world := move_to_failed failed_folder plan_file_path
                          (pystr_of ''Plan-Import-Fehler: '' @ exc_text e) (import_world s),
       import_failed := Suc (import_failed s)\<rparr>"

definition with_files :: "filesystem \<Rightarrow> import_state \<Rightarrow> import_state" where
  "with_files fs s = s\<lparr>import_world := (import_world s)\<lparr>files := fs\<rparr>\<rparr>"

definition import_plan ::
  "(codepoint \<Rightarrow> bool) \<Rightarrow> path \<Rightarrow> path \<Rightarrow> ref_map \<times> ref_map \<Rightarrow> path \<times> dataset \<Rightarrow>
   import_state \<Rightarrow> import_state" where
  "import_plan W watch_folder failed_folder maps plan s =
     (let plan_ds = snd plan;
          patient_id = patient_id_of plan_ds;
          safe_plan_name = sanitize_path_component W (plan_name_of plan_ds);
          plan_folder = plan_folder_of W watch_folder plan_ds;
          dest_path = plan_folder @ [pystr_of ''RTPLAN_'' @ safe_plan_name @ pystr_of ''.dcm'']
      in case replace_by_copy (files (import_world s)) (fst plan) dest_path of
           (Some e, fs1) \<Rightarrow> plan_import_failed failed_folder (fst plan) e (with_files fs1 s)
         | (None, fs1) \<Rightarrow>
             (let s1 = (with_files fs1 s)\<lparr>import_processed := Suc (import_processed s)\<rparr>;
                  plan_sop_uid = sop_instance_uid_of plan_ds;
                  dose_dest_path =
                    plan_folder @ [pystr_of ''RTDOSE_'' @ safe_plan_name @ pystr_of ''.dcm''];
                  (r, fs2, copied) =
                    import_dose_files plan_sop_uid patient_id dose_dest_path
                      (lookup_ref (fst maps) plan_sop_uid) fs1;
                  s2 = (with_files fs2 s1)\<lparr>import_processed := import_processed s1 + length copied,
                          dose_copies := dose_copies s1 @ map (Pair plan) copied\<rparr>
              in case r of
                   Some e \<Rightarrow> plan_import_failed failed_folder (fst plan) e s2
                 | None \<Rightarrow>
                     (let frame_uid = frame_ref_uid_of plan_ds;
                          related = (if frame_uid \<noteq> [] then lookup_ref (snd maps) frame_uid else []);
                          (r3, fs3, n) =
                            import_related_files W plan_folder safe_plan_name patient_id related fs2;
                          s3 = (with_files fs3 s2)\<lparr>import_processed := import_processed s2 + n\<rparr>
                      in case r3 of
                           Some e \<Rightarrow> plan_import_failed failed_folder (fst plan) e s3
                         | None \<Rightarrow> s3)))"

text \<open>
  Phase 3 starts from the set of all other files and then looks at the CT and structure
  files:
  \<^verbatim>\<open>
  orphaned_files = set(other_files)
  for ct_file in ct_files:
      if ct_file not in orphaned_files and ct_file not in processed:
          orphaned_files.add(ct_file)
  \<close>
  and alike for \<^verbatim>\<open>structure_files\<close>. Here \<^verbatim>\<open>processed\<close> is the counter, an \<^verbatim>\<open>int\<close>,
  so the second test raises \<^verbatim>\<open>TypeError\<close> for the first such file that is not among
  the other files; nothing handles it. A Python set has no order of its own: the model
  goes through the orphans in the order of the list.
\<close>

definition orphaned_files_of ::
  "(path \<times> dataset) list \<Rightarrow> (path \<times> dataset) list \<Rightarrow> (path \<times> dataset) list \<Rightarrow>
   py_error + (path \<times> dataset) list" where
  "orphaned_files_of other_files ct_files structure_files =
     (if list_ex (\<lambda>pd. fst pd \<notin> set (map fst other_files)) (ct_files @ structure_files)
      then Inl TypeError
      else Inr (remdups other_files))"

text \<open>
  An orphan goes to the folder \<^verbatim>\<open>Unzugeordnet_<safe_study_id>\<close> of its patient, under
  the name \<^verbatim>\<open>CT.<safe_sop_instance>.dcm\<close> or \<^verbatim>\<open><modality>_<safe_plan_name>.dcm\<close>,
  where the plan name falls back to the series description, else the study description,
  else \<^verbatim>\<open>Unzugeordnet\<close>. An exception is handled by
  \<^verbatim>\<open>self.move_to_failed(file_path, f"Orphaned-Import-Fehler: {str(e)}")\<close>.
\<close>

definition fallback_plan_name :: "dataset \<Rightarrow> pystr" where
  "fallback_plan_name ds =
     (case SeriesDescription ds of
        Some d \<Rightarrow> d
      | None \<Rightarrow> (case StudyDescription ds of Some d \<Rightarrow> d | None \<Rightarrow> pystr_of ''Unzugeordnet''))"

definition orphan_dest :: "(codepoint \<Rightarrow> bool) \<Rightarrow> path \<Rightarrow> dataset \<Rightarrow> path" where
  "orphan_dest W watch_folder ds =
     (let modality = modality_or (pystr_of ''UNKNOWN'') ds;
          filename =
            (if modality = pystr_of ''CT''
             then pystr_of ''CT.'' @ sanitize_path_component W (sop_instance_uid_of ds) @
                  pystr_of ''.dcm''
             else modality @ pystr_of ''_'' @
                  sanitize_path_component W (fallback_plan_name ds) @ pystr_of ''.dcm'')
      in watch_folder @
           [patient_folder_name W (patient_name_of ds) (patient_id_of ds),
            pystr_of ''Unzugeordnet_'' @
              sanitize_path_component W (last_dot_segment (study_uid_of ds)),
            filename])"

definition import_orphan ::
  "(codepoint \<Rightarrow> bool) \<Rightarrow> path \<Rightarrow> path \<Rightarrow> path \<times> dataset \<Rightarrow> import_state \<Rightarrow> import_state" where
  "import_orphan W watch_folder failed_folder orphan s =
     (case replace_by_copy (files (import_world s)) (fst orphan)
             (orphan_dest W watch_folder (snd orphan)) of
        (None, fs1) \<Rightarrow> (with_files fs1 s)\<lparr>import_processed := Suc (import_processed s)\<rparr>
      | (Some e, fs1) \<Rightarrow>
          (with_files fs1 s)
            \<lparr>import_world := move_to_failed failed_folder (fst orphan)
                               (pystr_of ''Orphaned-Import-Fehler: '' @ exc_text e)
                               ((import_world s)\<lparr>files := fs1\<rparr>),
             import_failed := Suc (import_failed s)\<rparr>)"

text \<open>
  \<^verbatim>\<open>process_import_folder\<close>. After phase 3 the setting
  \<^verbatim>\<open>clear_import_folder_after_import\<close> is read and then overridden by
  \<^verbatim>\<open>clear_import_folder = True\<close>, so every file below the import folder is removed.
  The forwarding stage that follows sends without deleting. The result is the
  exception raised, or the pair of the success flag and \<^verbatim>\<open>processed\<close> that the function
  returns, with the world and the doses copied into plan folders.
\<close>

definition clear_import_folder :: "path \<Rightarrow> world \<Rightarrow> world" where
  "clear_import_folder import_folder w =
     w\<lparr>files := filter (\<lambda>(p, c). \<not> strict_prefix import_folder p) (files w)\<rparr>"

definition process_import_folder ::
  "(codepoint \<Rightarrow> bool) \<Rightarrow> path \<Rightarrow> path \<Rightarrow> path \<Rightarrow> world \<Rightarrow>
   (py_error + bool \<times> nat) \<times> world \<times> dose_placements" where
  "process_import_folder W watch_folder failed_folder import_folder w =
     (let all_files = files_below (files w) import_folder;
          (file_data, w1) = read_import_files failed_folder all_files w;
          plan_files = plan_files_of file_data;
          ct_files = ct_files_of file_data;
          structure_files = structure_files_of file_data;
          other_files = other_files_of file_data
      in if plan_files = [] \<and> ct_files = [] \<and> structure_files = [] \<and> other_files = []
         then (Inr (False, 0), w1, [])
         else (let maps = build_import_ref_maps plan_files other_files ct_files structure_files
                            ([], []);
                   s2 = fold (import_plan W watch_folder failed_folder maps) plan_files
                          \<lparr>import_world = w1, import_processed = 0, import_failed = 0, dose_copies = []\<rparr>
               in case orphaned_files_of other_files ct_files structure_files of
                    Inl e \<Rightarrow> (Inl e, import_world s2, dose_copies s2)
                  | Inr orphans \<Rightarrow>
                      (let s3 = fold (import_orphan W watch_folder failed_folder) orphans s2
                       in (Inr (True, import_processed s3),
                           clear_import_folder import_folder (import_world s3),
                           dose_copies s3))))"

section \<open>Concrete inputs of the importer\<close>

text \<open>
  An import folder with three files of one study: a plan and its dose of the patient
  with the ID \<^verbatim>\<open>P:1\<close>, and a plan of the patient with the ID \<^verbatim>\<open>P/1\<close>. Both patients
  have the same name and both plans the same label.
\<close>

definition example_import_folder :: path where
  "example_import_folder = [pystr_of ''import'']"

definition example_plan_colon :: "path \<times> dataset" where
  "example_plan_colon =
     ([pystr_of ''import'', pystr_of ''a_plan.dcm''],
      (example_dataset ''RTPLAN'')\<lparr>PatientID := Some (pystr_of ''P:1''),
         SOPInstanceUID := Some (pystr_of ''1.2.9''), RTPlanLabel := Some (pystr_of ''Head'')\<rparr>)"

definition example_dose_colon :: "path \<times> dataset" where
  "example_dose_colon =
     ([pystr_of ''import'', pystr_of ''b_dose.dcm''],
      (example_dataset ''RTDOSE'')\<lparr>PatientID := Some (pystr_of ''P:1''),
         SOPInstanceUID := Some (pystr_of ''1.2.4''),
         ReferencedRTPlanSequence := Some [Some (pystr_of ''1.2.9'')]\<rparr>)"

definition example_plan_slash :: "path \<times> dataset" where
  "example_plan_slash =
     ([pystr_of ''import'', pystr_of ''c_plan.dcm''],
      (example_dataset ''RTPLAN'')\<lparr>PatientID := Some (pystr_of ''P/1''),
         RTPlanLabel := Some (pystr_of ''Head'')\<rparr>)"

definition example_import_world :: world where
  "example_import_world =
     \<lparr>files = [(fst example_plan_colon, DicomFile (snd example_plan_colon)),
               (fst example_dose_colon, DicomFile (snd example_dose_colon)),
               (fst example_plan_slash, DicomFile (snd example_plan_slash))],
      clock = example_clock, ticks = 0\<rparr>"

definition example_shared_folder :: path where
  "example_shared_folder = [pystr_of ''received'', pystr_of ''Doe (P-1)'', pystr_of ''Head_77'']"

chapter \<open>Verified properties\<close>

section \<open>Properties of the name sanitizer\<close>

lemma keep_char_95: "keep_char W 95"
  by (simp add: keep_char_def)

lemma not_keep_char_seps: "\<not> keep_char W 58" "\<not> keep_char W 47" "\<not> keep_char W 92"
  by (simp_all add: keep_char_def is_word_def)

lemma re_sub_problematic_keeps: "c \<in> set (re_sub_problematic W s) \<Longrightarrow> keep_char W c"
  by (auto simp: re_sub_problematic_def keep_char_95)

lemma set_py_strip: "set (py_strip s) \<subseteq> set s"
proof -
  have "set (py_strip s) \<subseteq> set (dropWhile is_space s)"
    unfolding py_strip_def using set_dropWhileD by fastforce
  also have "\<dots> \<subseteq> set s"
    using set_dropWhileD by fastforce
  finally show ?thesis .
qed

lemma sanitize_keeps: "c \<in> set (sanitize_path_component W s) \<Longrightarrow> keep_char W c"
  unfolding sanitize_path_component_def
  using set_py_strip re_sub_problematic_keeps by blast

lemma py_replace_absent: "old \<notin> set s \<Longrightarrow> py_replace old new s = s"
  by (induction s) (auto simp: py_replace_def)

lemma re_sub_problematic_id: "\<forall>c\<in>set s. keep_char W c \<Longrightarrow> re_sub_problematic W s = s"
  by (induction s) (auto simp: re_sub_problematic_def)

lemma py_strip_ends:
  "py_strip s = [] \<or> (\<not> is_space (hd (py_strip s)) \<and> \<not> is_space (last (py_strip s)))"
proof (cases "py_strip s = []")
  case True
  then show ?thesis by simp
next
  case False
  define v where "v = dropWhile is_space s"
  define w where "w = dropWhile is_space (rev v)"
  have u: "py_strip s = rev w" by (simp add: py_strip_def v_def w_def)
  with False have wne: "w \<noteq> []" by simp
  then have hw: "\<not> is_space (hd w)" unfolding w_def by (rule hd_dropWhile)
  have "rev v = takeWhile is_space (rev v) @ w"
    by (simp add: w_def)
  then have "v = rev w @ rev (takeWhile is_space (rev v))"
    by (metis rev_append rev_rev_ident)
  then have "hd v = hd (rev w)" using wne by (metis hd_append2 rev_is_Nil_conv)
  moreover have "v \<noteq> []" using wne w_def by auto
  then have "\<not> is_space (hd v)" unfolding v_def by (rule hd_dropWhile)
  ultimately have "\<not> is_space (hd (rev w))" by simp
  moreover have "\<not> is_space (last (rev w))" using hw wne by (simp add: last_rev)
  ultimately show ?thesis using u by simp
qed

lemma py_strip_fixed:
  assumes "s = [] \<or> (\<not> is_space (hd s) \<and> \<not> is_space (last s))"
  shows "py_strip s = s"
proof (cases "s = []")
  case True
  then show ?thesis by (simp add: py_strip_def)
next
  case False
  with assms have h: "\<not> is_space (hd s)" and l: "\<not> is_space (last s)" by auto
  have 1: "dropWhile is_space s = s"
    using h by (simp add: dropWhile_eq_self_iff)
  have "hd (rev s) = last s" using False by (simp add: hd_rev)
  then have 2: "dropWhile is_space (rev s) = rev s"
    using l by (simp add: dropWhile_eq_self_iff)
  show ?thesis by (simp add: py_strip_def 1 2)
qed

text \<open>
  Claim C6: the name sanitizer is idempotent, for every input string and whatever the
  non-ASCII part of the word-character table is.
\<close>

theorem sanitize_idempotent:
  "sanitize_path_component W (sanitize_path_component W s) = sanitize_path_component W s"
proof -
  define t where "t = sanitize_path_component W s"
  have keep: "\<forall>c\<in>set t. keep_char W c"
    unfolding t_def using sanitize_keeps by blast
  have "58 \<notin> set t" "47 \<notin> set t"
    using keep not_keep_char_seps by blast+
  then have 1: "py_replace 47 45 (py_replace 58 45 t) = t"
    by (simp add: py_replace_absent)
  have 2: "re_sub_problematic W t = t"
    using keep by (rule re_sub_problematic_id)
  have "t = py_strip (re_sub_problematic W (py_replace 47 45 (py_replace 58 45 s)))"
    by (simp add: t_def sanitize_path_component_def)
  then have 3: "py_strip t = t"
    using py_strip_ends py_strip_fixed by metis
  have "sanitize_path_component W t = t"
    by (simp add: sanitize_path_component_def 1 2 3)
  then show ?thesis by (simp add: t_def)
qed

text \<open>
  Claim C5, as stated, fails: on the input \<^verbatim>\<open>_a__b\<close> the source returns the input
  unchanged, with its leading underscore and its run of two underscores, where the four
  rules of the specification give \<^verbatim>\<open>a_b\<close>.
\<close>

theorem sanitize_no_collapse_no_trim:
  "sanitize_path_component latin1_alnum (pystr_of ''_a__b'') = pystr_of ''_a__b'' \<and>
   spec_sanitize (pystr_of ''_a__b'') = pystr_of ''a_b'' \<and>
   sanitize_path_component latin1_alnum (pystr_of ''_a__b'') \<noteq> spec_sanitize (pystr_of ''_a__b'')"
  by (simp add: pystr_of_def sanitize_path_component_def spec_sanitize_def py_replace_def
      re_sub_problematic_def py_strip_def keep_char_def is_word_def is_space_def ascii_keep_def
      trim_underscores_def)

lemma map_fuse: "re_sub_problematic W (py_replace 47 45 (py_replace 58 45 s)) = map (sanitize_char W) s"
  by (induction s) (auto simp: re_sub_problematic_def py_replace_def sanitize_char_def keep_char_def is_word_def)

lemma py_strip_decomp: "\<exists>pre suf. s = pre @ py_strip s @ suf \<and> list_all is_space pre \<and> list_all is_space suf"
proof -
  define v where "v = dropWhile is_space s"
  define w where "w = dropWhile is_space (rev v)"
  have 1: "s = takeWhile is_space s @ v" by (simp add: v_def)
  have "rev v = takeWhile is_space (rev v) @ w" by (simp add: w_def)
  then have 2: "v = rev w @ rev (takeWhile is_space (rev v))"
    by (metis rev_append rev_rev_ident)
  have 3: "py_strip s = rev w" by (simp add: py_strip_def v_def w_def)
  have a: "list_all is_space (takeWhile is_space s)"
    by (simp add: list_all_iff) (meson set_takeWhileD)
  have b: "list_all is_space (rev (takeWhile is_space (rev v)))"
    by (simp add: list_all_iff) (meson set_takeWhileD)
  from 1 2 3 have "s = takeWhile is_space s @ py_strip s @ rev (takeWhile is_space (rev v))" by simp
  with a b show ?thesis by blast
qed

text \<open>
  Claim C5, amended: the sanitizer works character by character and then strips
  whitespace. The output is the image of the input under \<open>sanitize_char\<close> (colon and
  slash become a hyphen, every other character that is not a word character, hyphen,
  underscore, dot or space becomes an underscore, all others stay) with only
  whitespace removed, and only at the two ends; runs of underscores and hyphens stay
  as they are and underscores at the ends are kept.
\<close>

theorem sanitize_charwise:
  "\<exists>pre suf. map (sanitize_char W) s = pre @ sanitize_path_component W s @ suf \<and>
      list_all is_space pre \<and> list_all is_space suf \<and>
      (sanitize_path_component W s = [] \<or>
       (\<not> is_space (hd (sanitize_path_component W s)) \<and>
        \<not> is_space (last (sanitize_path_component W s))))"
proof -
  have eq: "sanitize_path_component W s = py_strip (map (sanitize_char W) s)"
    by (simp add: sanitize_path_component_def map_fuse)
  obtain pre suf where "map (sanitize_char W) s = pre @ py_strip (map (sanitize_char W) s) @ suf"
    "list_all is_space pre" "list_all is_space suf"
    using py_strip_decomp by blast
  then show ?thesis
    using eq py_strip_ends[of "map (sanitize_char W) s"] by auto
qed

text \<open>
  Claim C10: for every input the sanitizer's output holds no slash, backslash or colon
  and neither starts nor ends with whitespace; the patient folder name and the plan
  folder name built from sanitized values are therefore single path components.
\<close>

theorem sanitize_single_component:
  "47 \<notin> set (sanitize_path_component W s) \<and> 92 \<notin> set (sanitize_path_component W s) \<and>
   58 \<notin> set (sanitize_path_component W s) \<and>
   (sanitize_path_component W s = [] \<or>
     (\<not> is_space (hd (sanitize_path_component W s)) \<and>
      \<not> is_space (last (sanitize_path_component W s)))) \<and>
   single_component (patient_folder_name W patient_name patient_id) \<and>
   single_component (plan_folder_name W plan_name study_uid)"
proof -
  have seps: "47 \<notin> set (sanitize_path_component W x) \<and> 92 \<notin> set (sanitize_path_component W x) \<and>
    58 \<notin> set (sanitize_path_component W x)" for x
    using sanitize_keeps not_keep_char_seps by blast
  have ends: "sanitize_path_component W s = [] \<or>
     (\<not> is_space (hd (sanitize_path_component W s)) \<and>
      \<not> is_space (last (sanitize_path_component W s)))"
    unfolding sanitize_path_component_def by (rule py_strip_ends)
  have p1: "single_component (patient_folder_name W patient_name patient_id)"
  proof -
    have "40 \<in> set (patient_folder_name W patient_name patient_id)"
      by (simp add: patient_folder_name_def pystr_of_def)
    then have "patient_folder_name W patient_name patient_id \<noteq> []"
      "patient_folder_name W patient_name patient_id \<noteq> pystr_of ''.''"
      "patient_folder_name W patient_name patient_id \<noteq> pystr_of ''..''"
      by (auto simp: pystr_of_def)
    moreover have "47 \<notin> set (patient_folder_name W patient_name patient_id)"
      "92 \<notin> set (patient_folder_name W patient_name patient_id)"
      "58 \<notin> set (patient_folder_name W patient_name patient_id)"
      using seps[of patient_name] seps[of patient_id]
      by (simp_all add: patient_folder_name_def pystr_of_def)
    ultimately show ?thesis by (simp add: single_component_def)
  qed
  have p2: "single_component (plan_folder_name W plan_name study_uid)"
  proof -
    have "95 \<in> set (plan_folder_name W plan_name study_uid)"
      by (simp add: plan_folder_name_def pystr_of_def)
    then have "plan_folder_name W plan_name study_uid \<noteq> []"
      "plan_folder_name W plan_name study_uid \<noteq> pystr_of ''.''"
      "plan_folder_name W plan_name study_uid \<noteq> pystr_of ''..''"
      by (auto simp: pystr_of_def)
    moreover have "47 \<notin> set (plan_folder_name W plan_name study_uid)"
      "92 \<notin> set (plan_folder_name W plan_name study_uid)"
      "58 \<notin> set (plan_folder_name W plan_name study_uid)"
      using seps[of plan_name] seps[of "last_dot_segment study_uid"]
      by (simp_all add: plan_folder_name_def pystr_of_def)
    ultimately show ?thesis by (simp add: single_component_def)
  qed
  show ?thesis using seps[of s] ends p1 p2 by simp
qed

section \<open>The C-ECHO handler\<close>

text \<open>
  Claim C7 says that a C-ECHO from an AE title outside the trusted list is answered
  with status 0xC001, and that it writes no file and creates no bucket. The function
  \<^verbatim>\<open>handle_echo\<close> does return 0xC001 for such a title, but the server never calls
  it: with the trusted titles of the configuration default, the peer \<^verbatim>\<open>UNKNOWN_AE\<close> is
  not trusted, \<^verbatim>\<open>handle_echo\<close> would answer 0xC001, and the server as
  \<^verbatim>\<open>start_receiver\<close> starts it answers 0x0000. The state is left as it was.
\<close>

theorem untrusted_echo_is_accepted:
  "pystr_of ''UNKNOWN_AE'' \<notin>
     set (TRUSTED_AE_TITLES (pystr_of ''MRMULTI,TR_SEND,VARIAN,MYQASRS,RTPLANNING,TRUSTED_AE_2'')) \<and>
   fst (handle_echo
          (TRUSTED_AE_TITLES (pystr_of ''MRMULTI,TR_SEND,VARIAN,MYQASRS,RTPLANNING,TRUSTED_AE_2''))
          (pystr_of ''UNKNOWN_AE'') empty_station) = 0xC001 \<and>
   serve_c_echo start_receiver_handlers
     (TRUSTED_AE_TITLES (pystr_of ''MRMULTI,TR_SEND,VARIAN,MYQASRS,RTPLANNING,TRUSTED_AE_2''))
     (pystr_of ''UNKNOWN_AE'') empty_station = (0x0000, empty_station)"
  by (simp add: serve_c_echo_def start_receiver_handlers_def handle_echo_def is_trusted_ae_def
      TRUSTED_AE_TITLES_def py_strip_def is_space_def pystr_of_def)

section \<open>The rule engine\<close>

text \<open>
  Claim C9: evaluating the rules leaves the rule and node configuration as it was;
  the result depends on nothing but the source AE, the plan label and the two
  configurations, so a call made after any other call returns what it would have
  returned before; and with the rules globally disabled the result is the empty list.
\<close>

theorem check_forwarding_rules_pure:
  "snd (check_forwarding_rules st source_ae plan_name) = st \<and>
   (rules_config st' = rules_config st \<and> settings_config st' = settings_config st \<longrightarrow>
      fst (check_forwarding_rules st' source_ae plan_name) =
      fst (check_forwarding_rules st source_ae plan_name)) \<and>
   fst (check_forwarding_rules (snd (check_forwarding_rules st ae0 plan0)) source_ae plan_name) =
     fst (check_forwarding_rules st source_ae plan_name) \<and>
   (get_rules_enabled (rules_config st) = Inr False \<longrightarrow>
      fst (check_forwarding_rules st source_ae plan_name) = Inr [])"
proof -
  have unchanged: "snd (check_forwarding_rules s a p) = s" for s a p
    by (simp add: check_forwarding_rules_def split: sum.splits bool.splits)
  have same: "fst (check_forwarding_rules st' source_ae plan_name) =
      fst (check_forwarding_rules st source_ae plan_name)"
    if "rules_config st' = rules_config st" "settings_config st' = settings_config st"
    using that by (simp add: check_forwarding_rules_def split: sum.splits bool.splits)
  have off: "fst (check_forwarding_rules st source_ae plan_name) = Inr []"
    if "get_rules_enabled (rules_config st) = Inr False"
    using that by (simp add: check_forwarding_rules_def)
  show ?thesis using unchanged same off by simp
qed

text \<open>The definitions that evaluating a concrete rule configuration unfolds.\<close>

lemmas rule_eval = check_forwarding_rules_def get_rules_enabled_def cfg_getboolean_def
  example_rules_def disabled_rules_def example_settings_def example_node_def
  parse_boolean_def ascii_lower_def pystr_of_def get_all_rules_def cfg_sections_def get_rule_def
  cfg_get_def rule_applies_def get_node_info_def get_dicom_nodes_def get_dicom_node_def
  py_strip_def is_space_def sublist_code Let_def

theorem check_forwarding_rules_pure_witness:
  "fst (check_forwarding_rules \<lparr>rules_config = example_rules, settings_config = example_settings\<rparr>
        (pystr_of ''TR_SEND'') (pystr_of ''Head_ADP'')) = Inr [(pystr_of ''ORGANO'', example_node)] \<and>
   snd (check_forwarding_rules \<lparr>rules_config = example_rules, settings_config = example_settings\<rparr>
        (pystr_of ''TR_SEND'') (pystr_of ''Head_ADP'')) =
     \<lparr>rules_config = example_rules, settings_config = example_settings\<rparr> \<and>
   fst (check_forwarding_rules
         (snd (check_forwarding_rules \<lparr>rules_config = example_rules, settings_config = example_settings\<rparr>
                (pystr_of ''OTHER'') (pystr_of ''Plan'')))
        (pystr_of ''TR_SEND'') (pystr_of ''Head_ADP'')) = Inr [(pystr_of ''ORGANO'', example_node)] \<and>
   get_rules_enabled (rules_config \<lparr>rules_config = disabled_rules, settings_config = example_settings\<rparr>) = Inr False \<and>
   fst (check_forwarding_rules \<lparr>rules_config = disabled_rules, settings_config = example_settings\<rparr>
        (pystr_of ''TR_SEND'') (pystr_of ''Head_ADP'')) = Inr []"
proof -
  have r: "fst (check_forwarding_rules \<lparr>rules_config = example_rules, settings_config = example_settings\<rparr>
        (pystr_of ''TR_SEND'') (pystr_of ''Head_ADP'')) = Inr [(pystr_of ''ORGANO'', example_node)]"
    by (simp add: rule_eval)
  have d: "get_rules_enabled (rules_config \<lparr>rules_config = disabled_rules, settings_config = example_settings\<rparr>) = Inr False"
    by (simp add: rule_eval)
  show ?thesis
    using r d
      check_forwarding_rules_pure [of "\<lparr>rules_config = example_rules, settings_config = example_settings\<rparr>"
        "pystr_of ''TR_SEND''" "pystr_of ''Head_ADP''" "\<lparr>rules_config = example_rules, settings_config = example_settings\<rparr>"
        "pystr_of ''OTHER''" "pystr_of ''Plan''"]
      check_forwarding_rules_pure [of "\<lparr>rules_config = disabled_rules, settings_config = example_settings\<rparr>"
        "pystr_of ''TR_SEND''" "pystr_of ''Head_ADP''" "\<lparr>rules_config = disabled_rules, settings_config = example_settings\<rparr>"
        "pystr_of ''OTHER''" "pystr_of ''Plan''"]
    by simp
qed

section \<open>Modality ordering of send batches\<close>

lemma modality_names_distinct:
  "pystr_of ''CT'' \<noteq> pystr_of ''RTSTRUCT''" "pystr_of ''CT'' \<noteq> pystr_of ''RTPLAN''"
  "pystr_of ''CT'' \<noteq> pystr_of ''RTDOSE''" "pystr_of ''RTSTRUCT'' \<noteq> pystr_of ''RTPLAN''"
  "pystr_of ''RTSTRUCT'' \<noteq> pystr_of ''RTDOSE''" "pystr_of ''RTPLAN'' \<noteq> pystr_of ''RTDOSE''"
  "pystr_of ''CT'' \<noteq> pystr_of ''RTIMAGE''" "pystr_of ''RTSTRUCT'' \<noteq> pystr_of ''RTIMAGE''"
  "pystr_of ''RTPLAN'' \<noteq> pystr_of ''RTIMAGE''" "pystr_of ''RTDOSE'' \<noteq> pystr_of ''RTIMAGE''"
  by (simp_all add: pystr_of_def)

lemma rank_values:
  "rank (pystr_of ''CT'') = 0" "rank (pystr_of ''RTSTRUCT'') = 1"
  "rank (pystr_of ''RTPLAN'') = 2" "rank (pystr_of ''RTDOSE'') = 3"
  using modality_names_distinct by (simp_all add: rank_def)

lemma rank_other:
  "m \<noteq> pystr_of ''CT'' \<Longrightarrow> m \<noteq> pystr_of ''RTSTRUCT'' \<Longrightarrow> m \<noteq> pystr_of ''RTPLAN'' \<Longrightarrow>
   m \<noteq> pystr_of ''RTDOSE'' \<Longrightarrow> rank m = 4"
  by (simp add: rank_def)

lemma rank_table_init:
  "rank m = rank_of_order (case map_of modality_order_init m of Some k \<Rightarrow> k | None \<Rightarrow> 99)"
  using modality_names_distinct by (simp add: rank_def rank_of_order_def modality_order_init_def)

lemma rank_table_fallback:
  "rank m = rank_of_order (case map_of modality_order_fallback m of Some k \<Rightarrow> k | None \<Rightarrow> 99)"
  using modality_names_distinct by (simp add: rank_def rank_of_order_def modality_order_fallback_def)

lemma file_rank_order:
  assumes "table = modality_order_init \<or> table = modality_order_fallback"
  shows "file_rank fs p = rank_of_order (file_order table fs p)"
proof (cases "dcmread_force fs p")
  case (Inl e)
  then show ?thesis by (simp add: file_rank_def file_order_def rank_of_order_def)
next
  case (Inr ds)
  then show ?thesis
    using assms rank_table_init rank_table_fallback
    by (auto simp: file_rank_def file_order_def)
qed

lemma mono_rank_of_order: "mono rank_of_order"
  by (rule monoI) (auto simp: rank_of_order_def)

lemma sorted_ranks:
  assumes "table = modality_order_init \<or> table = modality_order_fallback"
  shows "sorted (map (file_rank fs) (sort_key (file_order table fs) xs))"
proof -
  have "sorted (map (file_order table fs) (sort_key (file_order table fs) xs))"
    by (rule sorted_sort_key)
  then have "sorted (map rank_of_order (map (file_order table fs) (sort_key (file_order table fs) xs)))"
    by (rule sorted_map_mono) (use mono_rank_of_order in \<open>auto simp: mono_on_def mono_def\<close>)
  moreover have "file_rank fs = rank_of_order \<circ> file_order table fs"
    using file_rank_order[OF assms] by (auto simp: fun_eq_iff)
  ultimately show ?thesis by simp
qed

lemma plan_send_batch_sorted:
  assumes "attr = Some modality_order_init \<or> attr = None"
  shows "sorted (map (file_rank fs) (plan_send_batch attr fs plan_path))"
  using assms sorted_ranks[of _ fs "walk_dcm fs plan_path"]
  by (auto simp: plan_send_batch_def sort_files_by_modality_def)

text \<open>The buckets hold what their names say.\<close>

lemma process_file_unreadable:
  "dcmread (files w) p = Inl e \<Longrightarrow> fst (process_file watch_folder p (b, w)) = b"
  by (simp add: process_file_def Let_def split_beta split: option.split)

lemma process_file_readable:
  assumes "dcmread (files w) p = Inr ds"
  shows "fst (process_file watch_folder p (b, w)) =
     (let modality = modality_or (pystr_of ''UNKNOWN'') ds in
      if modality = pystr_of ''RTSTRUCT''
        then b\<lparr>rtstruct_bucket := rtstruct_bucket b @ [(p, ds)]\<rparr>
      else if modality = pystr_of ''CT''
        then b\<lparr>ct_bucket := ct_bucket b @ [(p, ds)]\<rparr>
      else if modality = pystr_of ''RTPLAN''
        then b\<lparr>rtplan_bucket := rtplan_bucket b @ [(p, ds)]\<rparr>
      else if modality = pystr_of ''RTDOSE''
        then b\<lparr>rtdose_bucket := rtdose_bucket b @ [(p, ds)]\<rparr>
      else b\<lparr>other_bucket := other_bucket b @ [(p, ds)]\<rparr>)"
  using assms by (simp add: process_file_def Let_def)

lemma process_file_buckets:
  assumes "process_file watch_folder p (b, w) = (b', w')"
    and "\<forall>x\<in>set (ct_bucket b). pair_rank x = 0"
    and "\<forall>x\<in>set (rtstruct_bucket b). pair_rank x = 1"
    and "\<forall>x\<in>set (rtplan_bucket b). pair_rank x = 2"
    and "\<forall>x\<in>set (rtdose_bucket b). pair_rank x = 3"
    and "\<forall>x\<in>set (other_bucket b). pair_rank x = 4"
  shows "(\<forall>x\<in>set (ct_bucket b'). pair_rank x = 0) \<and>
         (\<forall>x\<in>set (rtstruct_bucket b'). pair_rank x = 1) \<and>
         (\<forall>x\<in>set (rtplan_bucket b'). pair_rank x = 2) \<and>
         (\<forall>x\<in>set (rtdose_bucket b'). pair_rank x = 3) \<and>
         (\<forall>x\<in>set (other_bucket b'). pair_rank x = 4)"
proof (cases "dcmread (files w) p")
  case (Inl e)
  have "b' = b"
    using process_file_unreadable[OF Inl, of watch_folder b] assms(1) by simp
  then show ?thesis using assms by simp
next
  case (Inr ds)
  have b': "b' = fst (process_file watch_folder p (b, w))"
    using assms(1) by simp
  define m where "m = modality_or (pystr_of ''UNKNOWN'') ds"
  have r: "pair_rank (p, ds) = rank m" by (simp add: pair_rank_def m_def)
  consider (struct) "m = pystr_of ''RTSTRUCT''" | (ct) "m = pystr_of ''CT''"
    | (plan) "m = pystr_of ''RTPLAN''" | (dose) "m = pystr_of ''RTDOSE''"
    | (other) "m \<noteq> pystr_of ''RTSTRUCT''" "m \<noteq> pystr_of ''CT''" "m \<noteq> pystr_of ''RTPLAN''"
        "m \<noteq> pystr_of ''RTDOSE''"
    by blast
  then show ?thesis
  proof cases
    case struct
    then have "b' = b\<lparr>rtstruct_bucket := rtstruct_bucket b @ [(p, ds)]\<rparr>"
      using b' process_file_readable[OF Inr, of watch_folder b] by (simp add: m_def)
    then show ?thesis using assms(2-6) r struct rank_values by simp
  next
    case ct
    then have "b' = b\<lparr>ct_bucket := ct_bucket b @ [(p, ds)]\<rparr>"
      using b' process_file_readable[OF Inr, of watch_folder b] modality_names_distinct
      by (simp add: m_def)
    then show ?thesis using assms(2-6) r ct rank_values by simp
  next
    case plan
    then have "b' = b\<lparr>rtplan_bucket := rtplan_bucket b @ [(p, ds)]\<rparr>"
      using b' process_file_readable[OF Inr, of watch_folder b] modality_names_distinct
      by (simp add: m_def)
    then show ?thesis using assms(2-6) r plan rank_values by simp
  next
    case dose
    then have "b' = b\<lparr>rtdose_bucket := rtdose_bucket b @ [(p, ds)]\<rparr>"
      using b' process_file_readable[OF Inr, of watch_folder b] modality_names_distinct
      by (simp add: m_def)
    then show ?thesis using assms(2-6) r dose rank_values by simp
  next
    case other
    then have "b' = b\<lparr>other_bucket := other_bucket b @ [(p, ds)]\<rparr>"
      using b' process_file_readable[OF Inr, of watch_folder b] by (simp add: m_def)
    then show ?thesis using assms(2-6) r other rank_other[of m] by simp
  qed
qed

lemma fold_process_file_buckets:
  assumes "fold (process_file watch_folder) ps (b, w) = (b', w')"
    and "\<forall>x\<in>set (ct_bucket b). pair_rank x = 0"
    and "\<forall>x\<in>set (rtstruct_bucket b). pair_rank x = 1"
    and "\<forall>x\<in>set (rtplan_bucket b). pair_rank x = 2"
    and "\<forall>x\<in>set (rtdose_bucket b). pair_rank x = 3"
    and "\<forall>x\<in>set (other_bucket b). pair_rank x = 4"
  shows "(\<forall>x\<in>set (ct_bucket b'). pair_rank x = 0) \<and>
         (\<forall>x\<in>set (rtstruct_bucket b'). pair_rank x = 1) \<and>
         (\<forall>x\<in>set (rtplan_bucket b'). pair_rank x = 2) \<and>
         (\<forall>x\<in>set (rtdose_bucket b'). pair_rank x = 3) \<and>
         (\<forall>x\<in>set (other_bucket b'). pair_rank x = 4)"
  using assms
proof (induction ps arbitrary: b w)
  case Nil
  then show ?case by simp
next
  case (Cons p ps)
  obtain b1 w1 where step: "process_file watch_folder p (b, w) = (b1, w1)"
    by (cases "process_file watch_folder p (b, w)")
  have inv1: "(\<forall>x\<in>set (ct_bucket b1). pair_rank x = 0) \<and>
         (\<forall>x\<in>set (rtstruct_bucket b1). pair_rank x = 1) \<and>
         (\<forall>x\<in>set (rtplan_bucket b1). pair_rank x = 2) \<and>
         (\<forall>x\<in>set (rtdose_bucket b1). pair_rank x = 3) \<and>
         (\<forall>x\<in>set (other_bucket b1). pair_rank x = 4)"
    by (rule process_file_buckets[OF step Cons.prems(2-6)])
  have "fold (process_file watch_folder) ps (b1, w1) = (b', w')"
    using Cons.prems(1) step by simp
  then show ?case using Cons.IH inv1 by blast
qed

lemma ordered_files_sorted:
  assumes "\<forall>x\<in>set (ct_bucket b). pair_rank x = 0"
    and "\<forall>x\<in>set (rtstruct_bucket b). pair_rank x = 1"
    and "\<forall>x\<in>set (rtplan_bucket b). pair_rank x = 2"
    and "\<forall>x\<in>set (rtdose_bucket b). pair_rank x = 3"
    and "\<forall>x\<in>set (other_bucket b). pair_rank x = 4"
  shows "sorted (map pair_rank (ordered_files b))"
proof -
  have const: "sorted (map pair_rank xs)" if "\<forall>x\<in>set xs. pair_rank x = k" for xs k
    using that by (induction xs) auto
  show ?thesis
    using assms const[of "ct_bucket b" 0] const[of "rtstruct_bucket b" 1]
      const[of "rtplan_bucket b" 2] const[of "rtdose_bucket b" 3] const[of "other_bucket b" 4]
    by (auto simp: ordered_files_def sorted_append)
qed

lemma process_folder_batch_sorted:
  "sorted (map pair_rank (fst (process_folder_batch watch_folder folder_path w)))"
proof (cases "walk_dcm (files w) folder_path = []")
  case True
  then show ?thesis by (simp add: process_folder_batch_def)
next
  case False
  obtain b w1 where f: "fold (process_file watch_folder) (walk_dcm (files w) folder_path)
      (empty_buckets, w) = (b, w1)"
    by (cases "fold (process_file watch_folder) (walk_dcm (files w) folder_path) (empty_buckets, w)")
  have "sorted (map pair_rank (ordered_files b))"
    using fold_process_file_buckets[OF f] ordered_files_sorted
    by (simp add: empty_buckets_def)
  then show ?thesis using False f by (simp add: process_folder_batch_def)
qed

text \<open>
  Claim C4: with the rank 0 for CT, 1 for RTSTRUCT, 2 for RTPLAN, 3 for RTDOSE and 4
  for everything else, every batch is ordered by rank: the batch that
  \<open>send_plan_to_node\<close> sorts and sends, for the order table that the constructor
  installs and for the fallback table, and the batch that the folder watcher builds
  from its buckets. For all positions i before j the rank at i is at most the rank
  at j.
\<close>

theorem send_batch_modality_ordered:
  assumes "attr = Some modality_order_init \<or> attr = None"
  shows "rank (pystr_of ''CT'') = 0 \<and> rank (pystr_of ''RTSTRUCT'') = 1 \<and>
         rank (pystr_of ''RTPLAN'') = 2 \<and> rank (pystr_of ''RTDOSE'') = 3 \<and>
         (\<forall>i j. i < j \<and> j < length (plan_send_batch attr fs plan_path) \<longrightarrow>
            file_rank fs (plan_send_batch attr fs plan_path ! i) \<le>
            file_rank fs (plan_send_batch attr fs plan_path ! j)) \<and>
         (\<forall>i j. i < j \<and> j < length (fst (process_folder_batch watch_folder folder_path w)) \<longrightarrow>
            pair_rank (fst (process_folder_batch watch_folder folder_path w) ! i) \<le>
            pair_rank (fst (process_folder_batch watch_folder folder_path w) ! j))"
proof -
  have 1: "\<forall>i j. i < j \<and> j < length (plan_send_batch attr fs plan_path) \<longrightarrow>
            file_rank fs (plan_send_batch attr fs plan_path ! i) \<le>
            file_rank fs (plan_send_batch attr fs plan_path ! j)"
    using plan_send_batch_sorted[OF assms, of fs plan_path]
    by (simp add: sorted_iff_nth_mono_less)
  have 2: "\<forall>i j. i < j \<and> j < length (fst (process_folder_batch watch_folder folder_path w)) \<longrightarrow>
            pair_rank (fst (process_folder_batch watch_folder folder_path w) ! i) \<le>
            pair_rank (fst (process_folder_batch watch_folder folder_path w) ! j)"
    using process_folder_batch_sorted[of watch_folder folder_path w]
    by (simp add: sorted_iff_nth_mono_less)
  show ?thesis using 1 2 rank_values by simp
qed


text \<open>The definitions that evaluating the example plan folder unfolds.\<close>

lemmas fs_eval = plan_send_batch_def sort_files_by_modality_def walk_dcm_def example_fs_def
  example_plan_path_def example_dataset_def is_dcm_name_def ascii_lower_def pystr_of_def
  file_order_def dcmread_def dcmread_force_def modality_or_def modality_order_init_def file_rank_def rank_def
  strict_prefix_def suffix_def

lemma example_batch:
  "plan_send_batch (Some modality_order_init) example_fs example_plan_path =
     [example_plan_path @ [pystr_of ''CT.1.dcm''],
      example_plan_path @ [pystr_of ''RTPLAN_Head.dcm''],
      example_plan_path @ [pystr_of ''RTDOSE_Head.dcm'']]"
  by (simp add: fs_eval)


theorem send_batch_modality_ordered_witness:
  "plan_send_batch (Some modality_order_init) example_fs example_plan_path =
     [example_plan_path @ [pystr_of ''CT.1.dcm''],
      example_plan_path @ [pystr_of ''RTPLAN_Head.dcm''],
      example_plan_path @ [pystr_of ''RTDOSE_Head.dcm'']] \<and>
   file_rank example_fs
     (plan_send_batch (Some modality_order_init) example_fs example_plan_path ! 0) \<le>
   file_rank example_fs
     (plan_send_batch (Some modality_order_init) example_fs example_plan_path ! 2) \<and>
   file_rank example_fs (example_plan_path @ [pystr_of ''CT.1.dcm'']) = 0 \<and>
   file_rank example_fs (example_plan_path @ [pystr_of ''RTDOSE_Head.dcm'']) = 3"
proof -
  have a: "Some modality_order_init = Some modality_order_init \<or> Some modality_order_init = None"
    by simp
  have r: "i < j \<Longrightarrow>
      j < length (plan_send_batch (Some modality_order_init) example_fs example_plan_path) \<Longrightarrow>
      file_rank example_fs
        (plan_send_batch (Some modality_order_init) example_fs example_plan_path ! i) \<le>
      file_rank example_fs
        (plan_send_batch (Some modality_order_init) example_fs example_plan_path ! j)" for i j
    using send_batch_modality_ordered [OF a, of example_fs example_plan_path example_plan_path
        example_plan_path example_world]
    by blast
  have le: "file_rank example_fs
     (plan_send_batch (Some modality_order_init) example_fs example_plan_path ! 0) \<le>
   file_rank example_fs
     (plan_send_batch (Some modality_order_init) example_fs example_plan_path ! 2)"
    by (rule r) (simp_all add: example_batch)
  have v: "file_rank example_fs (example_plan_path @ [pystr_of ''CT.1.dcm'']) = 0"
    "file_rank example_fs (example_plan_path @ [pystr_of ''RTDOSE_Head.dcm'']) = 3"
    by (simp_all add: fs_eval)
  show ?thesis using le v example_batch by simp
qed

section \<open>The Failed path\<close>

lemma map_of_fs_write: "map_of (fs_write fs p c) = (map_of fs)(p \<mapsto> c)"
  by (simp add: fs_write_def update_conv')

lemma map_of_os_remove: "map_of (os_remove fs p) = (map_of fs)(p := None)"
  by (simp add: os_remove_def delete_conv')

lemma strftime_compact_format:
  "length (strftime_compact t) = 15 \<and> list_all is_digit (take 8 (strftime_compact t)) \<and>
   strftime_compact t ! 8 = 95 \<and> list_all is_digit (drop 9 (strftime_compact t))"
proof -
  have d: "n mod 10 \<le> 9" for n :: nat by arith
  show ?thesis
    by (simp add: strftime_compact_def four_digits_def two_digits_def pystr_of_def is_digit_def d)
qed

lemma failed_name_length: "length (failed_name t p) = 16 + length (basename p)"
  using strftime_compact_format[of t] by (simp add: failed_name_def pystr_of_def)

lemma failed_name_neq: "failed_folder @ [failed_name t p] \<noteq> p"
  "failed_folder @ [failed_name t p @ pystr_of ''.error''] \<noteq> p"
  "failed_folder @ [failed_name t p @ pystr_of ''.error''] \<noteq> failed_folder @ [failed_name t p]"
proof -
  show "failed_folder @ [failed_name t p] \<noteq> p"
  proof
    assume e: "failed_folder @ [failed_name t p] = p"
    then have "p \<noteq> []" by auto
    then have "basename p = last p" by (simp add: basename_def)
    also have "last p = failed_name t p" using e by (metis last_snoc)
    finally show False using failed_name_length[of t p] by simp
  qed
  show "failed_folder @ [failed_name t p @ pystr_of ''.error''] \<noteq> p"
  proof
    assume e: "failed_folder @ [failed_name t p @ pystr_of ''.error''] = p"
    then have "p \<noteq> []" by auto
    then have "basename p = last p" by (simp add: basename_def)
    also have "last p = failed_name t p @ pystr_of ''.error''" using e by (metis last_snoc)
    finally show False using failed_name_length[of t p] by (simp add: pystr_of_def)
  qed
  show "failed_folder @ [failed_name t p @ pystr_of ''.error''] \<noteq> failed_folder @ [failed_name t p]"
    by (simp add: pystr_of_def)
qed

lemma move_to_failed_files:
  assumes "map_of (files w) file_path = Some c"
  shows "map_of (files (move_to_failed failed_folder file_path error_msg w)) =
     ((map_of (files w))(file_path := None))
       (failed_folder @ [failed_name (clock w (ticks w)) file_path] \<mapsto> c,
        failed_folder @ [failed_name (clock w (ticks w)) file_path @ pystr_of ''.error''] \<mapsto>
          TextFile (error_text error_msg file_path (clock w (Suc (ticks w)))))"
  using assms
  by (simp add: move_to_failed_def now_def Let_def map_of_fs_write map_of_os_remove)


lemma failed_name_hd: "hd (failed_name t p) \<noteq> 115"
proof -
  have d: "n mod 10 \<le> 9" for n :: nat by arith
  have "hd (failed_name t p) = 48 + year t div 1000 mod 10"
    by (simp add: failed_name_def strftime_compact_def four_digits_def)
  then show ?thesis using d[of "year t div 1000"] by simp
qed

lemma watcher_paths_neq:
  "watcher_failed_folder wfolder @ [failed_name t p] \<noteq> watcher_log_file wfolder"
  "watcher_failed_folder wfolder @ [failed_name t p @ pystr_of ''.error''] \<noteq> watcher_log_file wfolder"
proof -
  show "watcher_failed_folder wfolder @ [failed_name t p] \<noteq> watcher_log_file wfolder"
  proof
    assume "watcher_failed_folder wfolder @ [failed_name t p] = watcher_log_file wfolder"
    then have "failed_name t p = pystr_of ''send_errors.log''"
      by (simp add: watcher_log_file_def)
    then have "hd (failed_name t p) = 115" by (simp add: pystr_of_def)
    then show False using failed_name_hd by blast
  qed
  show "watcher_failed_folder wfolder @ [failed_name t p @ pystr_of ''.error''] \<noteq> watcher_log_file wfolder"
  proof
    assume "watcher_failed_folder wfolder @ [failed_name t p @ pystr_of ''.error''] = watcher_log_file wfolder"
    then have e: "failed_name t p @ pystr_of ''.error'' = pystr_of ''send_errors.log''"
      by (simp add: watcher_log_file_def)
    have "failed_name t p \<noteq> []" using failed_name_length[of t p] by auto
    then have "hd (failed_name t p @ pystr_of ''.error'') = hd (failed_name t p)" by simp
    then have "hd (failed_name t p) = 115" using e by (simp add: pystr_of_def)
    then show False using failed_name_hd by blast
  qed
qed

lemma log_error_files:
  assumes "map_of (files w) (watcher_log_file wfolder) = None \<or>
           (\<exists>old. map_of (files w) (watcher_log_file wfolder) = Some (TextFile old))"
  shows "\<exists>old. map_of (files (log_error wfolder context error w)) =
     (map_of (files w))(watcher_log_file wfolder \<mapsto>
        TextFile (old @ pystr_of ''['' @ strftime_iso (clock w (ticks w)) @ pystr_of ''] '' @
                  context @ pystr_of '': '' @ error @ [10]))"
proof -
  from assms consider (absent) "map_of (files w) (watcher_log_file wfolder) = None"
    | (present) old where "map_of (files w) (watcher_log_file wfolder) = Some (TextFile old)"
    by auto
  then show ?thesis
  proof cases
    case absent
    then have "map_of (files (log_error wfolder context error w)) =
     (map_of (files w))(watcher_log_file wfolder \<mapsto>
        TextFile ([] @ pystr_of ''['' @ strftime_iso (clock w (ticks w)) @ pystr_of ''] '' @
                  context @ pystr_of '': '' @ error @ [10]))"
      by (simp add: log_error_def now_def Let_def map_of_fs_write)
    then show ?thesis by blast
  next
    case present
    then have "map_of (files (log_error wfolder context error w)) =
     (map_of (files w))(watcher_log_file wfolder \<mapsto>
        TextFile (old @ pystr_of ''['' @ strftime_iso (clock w (ticks w)) @ pystr_of ''] '' @
                  context @ pystr_of '': '' @ error @ [10]))"
      by (simp add: log_error_def now_def Let_def map_of_fs_write)
    then show ?thesis by blast
  qed
qed

lemma log_error_clock:
  "clock (log_error wfolder context error w) = clock w"
  by (simp add: log_error_def now_def Let_def split: option.split file_content.split)

lemma move_to_failed_watcher_files:
  assumes c: "map_of (files w) file_path = Some c"
    and l: "map_of (files w) (watcher_log_file wfolder) = None \<or>
           (\<exists>old. map_of (files w) (watcher_log_file wfolder) = Some (TextFile old))"
    and n: "file_path \<noteq> watcher_log_file wfolder"
  shows "\<exists>old. map_of (files (move_to_failed_watcher wfolder file_path error_message w)) =
     ((map_of (files w))
        (watcher_failed_folder wfolder @ [failed_name (clock w (ticks w)) file_path] \<mapsto> c,
         file_path := None))
       (watcher_log_file wfolder \<mapsto>
          TextFile (old @ pystr_of ''['' @ strftime_iso (clock w (Suc (ticks w))) @ pystr_of ''] '' @
            (pystr_of ''Failed file moved to '' @
              join_path (watcher_failed_folder wfolder @ [failed_name (clock w (ticks w)) file_path])) @
            pystr_of '': '' @ error_message @ [10]))"
proof -
  define dest where "dest = watcher_failed_folder wfolder @ [failed_name (clock w (ticks w)) file_path]"
  define w2 where "w2 = w\<lparr>ticks := Suc (ticks w), files := os_remove (fs_write (files w) dest c) file_path\<rparr>"
  have m2: "map_of (files w2) = (map_of (files w))(dest \<mapsto> c, file_path := None)"
    by (simp add: w2_def map_of_fs_write map_of_os_remove)
  have dl: "dest \<noteq> watcher_log_file wfolder" unfolding dest_def by (rule watcher_paths_neq)
  have l2: "map_of (files w2) (watcher_log_file wfolder) = None \<or>
           (\<exists>old. map_of (files w2) (watcher_log_file wfolder) = Some (TextFile old))"
    using l n dl by (simp add: m2)
  have eq: "move_to_failed_watcher wfolder file_path error_message w =
     log_error wfolder (pystr_of ''Failed file moved to '' @ join_path dest) error_message w2"
    using c by (simp add: move_to_failed_watcher_def now_def Let_def dest_def w2_def)
  have ck: "clock w2 (ticks w2) = clock w (Suc (ticks w))" by (simp add: w2_def)
  show ?thesis
    using log_error_files[OF l2, of "pystr_of ''Failed file moved to '' @ join_path dest" error_message]
    unfolding eq m2 ck dest_def by simp
qed


lemma move_to_failed_watcher_other:
  assumes "map_of (files w) file_path = Some c"
    and "map_of (files w) (watcher_log_file wfolder) = None \<or>
           (\<exists>old. map_of (files w) (watcher_log_file wfolder) = Some (TextFile old))"
    and "file_path \<noteq> watcher_log_file wfolder"
    and "q \<noteq> watcher_log_file wfolder"
  shows "map_of (files (move_to_failed_watcher wfolder file_path error_message w)) q =
     ((map_of (files w))
        (watcher_failed_folder wfolder @ [failed_name (clock w (ticks w)) file_path] \<mapsto> c,
         file_path := None)) q"
  using move_to_failed_watcher_files[OF assms(1-3), of error_message] assms(4) by auto

lemma sublist_skip: "sublist xs ys \<Longrightarrow> sublist xs (a @ ys)"
  unfolding sublist_def by (metis append.assoc)

lemma sublist_mid: "sublist xs (a @ b @ c @ d @ e @ f @ xs @ g)"
  by (rule sublist_skip, rule sublist_skip, rule sublist_skip, rule sublist_skip,
      rule sublist_skip, rule sublist_skip, simp)

lemma sublist_second: "sublist xs (a @ b @ xs @ c)"
  unfolding sublist_def by (metis append.assoc)

text \<open>
  Claim C8, amended. A file that exists and is quarantined by
  \<open>move_to_failed\<close> of \<^verbatim>\<open>DicomProcessor\<close> is moved into the failed folder under a name
  of the form \<^verbatim>\<open>yyyymmdd_HHMMSS_<basename>\<close>; beside it a text file with that name and
  the ending \<^verbatim>\<open>.error\<close> is written, which holds the failure message and a time stamp;
  the file is gone from its old place. The watcher of DICOMnode.py moves the file
  under a name of the same form, but records the failure message and its time stamp in
  the shared log \<^verbatim>\<open>send_errors.log\<close> of the failed folder and writes no file with the
  ending \<^verbatim>\<open>.error\<close>.
\<close>

theorem quarantine_relocates_and_records:
  assumes "map_of (files w) file_path = Some c"
  shows
    "map_of (files (move_to_failed failed_folder file_path error_msg w))
       (failed_folder @ [strftime_compact (clock w (ticks w)) @ pystr_of ''_'' @ basename file_path])
       = Some c \<and>
     map_of (files (move_to_failed failed_folder file_path error_msg w))
       (failed_folder @ [strftime_compact (clock w (ticks w)) @ pystr_of ''_'' @ basename file_path
          @ pystr_of ''.error''])
       = Some (TextFile (error_text error_msg file_path (clock w (Suc (ticks w))))) \<and>
     sublist error_msg (error_text error_msg file_path (clock w (Suc (ticks w)))) \<and>
     sublist (strftime_iso (clock w (Suc (ticks w))))
       (error_text error_msg file_path (clock w (Suc (ticks w)))) \<and>
     map_of (files (move_to_failed failed_folder file_path error_msg w)) file_path = None \<and>
     length (strftime_compact (clock w (ticks w))) = 15 \<and>
     list_all is_digit (take 8 (strftime_compact (clock w (ticks w)))) \<and>
     strftime_compact (clock w (ticks w)) ! 8 = 95 \<and>
     list_all is_digit (drop 9 (strftime_compact (clock w (ticks w)))) \<and>
     (file_path \<noteq> watcher_log_file wfolder \<and>
      (map_of (files w) (watcher_log_file wfolder) = None \<or>
       (\<exists>old. map_of (files w) (watcher_log_file wfolder) = Some (TextFile old))) \<longrightarrow>
        map_of (files (move_to_failed_watcher wfolder file_path error_msg w))
          (watcher_failed_folder wfolder @
             [strftime_compact (clock w (ticks w)) @ pystr_of ''_'' @ basename file_path]) = Some c \<and>
        map_of (files (move_to_failed_watcher wfolder file_path error_msg w)) file_path = None \<and>
        (\<exists>txt. map_of (files (move_to_failed_watcher wfolder file_path error_msg w))
                 (watcher_log_file wfolder) = Some (TextFile txt) \<and>
               sublist error_msg txt \<and>
               sublist (strftime_iso (clock w (Suc (ticks w)))) txt) \<and>
        map_of (files (move_to_failed_watcher wfolder file_path error_msg w))
          (watcher_failed_folder wfolder @
             [strftime_compact (clock w (ticks w)) @ pystr_of ''_'' @ basename file_path
                @ pystr_of ''.error'']) =
        map_of (files w)
          (watcher_failed_folder wfolder @
             [strftime_compact (clock w (ticks w)) @ pystr_of ''_'' @ basename file_path
                @ pystr_of ''.error'']))"
proof -
  define t1 where "t1 = clock w (ticks w)"
  define t2 where "t2 = clock w (Suc (ticks w))"
  have fn: "strftime_compact t1 @ pystr_of ''_'' @ basename file_path = failed_name t1 file_path"
    by (simp add: failed_name_def)
  have fne: "strftime_compact t1 @ pystr_of ''_'' @ basename file_path @ pystr_of ''.error'' =
      failed_name t1 file_path @ pystr_of ''.error''"
    by (simp add: failed_name_def)
  note m = move_to_failed_files[OF assms, of failed_folder error_msg, folded t1_def t2_def]
  have a1: "map_of (files (move_to_failed failed_folder file_path error_msg w))
       (failed_folder @ [failed_name t1 file_path]) = Some c"
    using failed_name_neq(3)[of failed_folder t1 file_path] by (simp add: m)
  have a2: "map_of (files (move_to_failed failed_folder file_path error_msg w))
       (failed_folder @ [failed_name t1 file_path @ pystr_of ''.error''])
       = Some (TextFile (error_text error_msg file_path t2))"
    by (simp add: m)
  have a3: "sublist error_msg (error_text error_msg file_path t2)"
    by (simp add: error_text_def)
  have a3': "sublist (strftime_iso t2) (error_text error_msg file_path t2)"
    unfolding error_text_def by (rule sublist_mid)
  have a4: "map_of (files (move_to_failed failed_folder file_path error_msg w)) file_path = None"
    using failed_name_neq(1,2)[of failed_folder t1 file_path] by (simp add: m)
  note a5 = strftime_compact_format[of t1]
  have b: "map_of (files (move_to_failed_watcher wfolder file_path error_msg w))
          (watcher_failed_folder wfolder @ [failed_name t1 file_path]) = Some c \<and>
        map_of (files (move_to_failed_watcher wfolder file_path error_msg w)) file_path = None \<and>
        (\<exists>txt. map_of (files (move_to_failed_watcher wfolder file_path error_msg w))
                 (watcher_log_file wfolder) = Some (TextFile txt) \<and>
               sublist error_msg txt \<and> sublist (strftime_iso t2) txt) \<and>
        map_of (files (move_to_failed_watcher wfolder file_path error_msg w))
          (watcher_failed_folder wfolder @ [failed_name t1 file_path @ pystr_of ''.error'']) =
        map_of (files w)
          (watcher_failed_folder wfolder @ [failed_name t1 file_path @ pystr_of ''.error''])"
    if n: "file_path \<noteq> watcher_log_file wfolder"
      and l: "map_of (files w) (watcher_log_file wfolder) = None \<or>
       (\<exists>old. map_of (files w) (watcher_log_file wfolder) = Some (TextFile old))"
  proof -
    note o = move_to_failed_watcher_other[OF assms l n, of _ error_msg, folded t1_def]
    have b1: "map_of (files (move_to_failed_watcher wfolder file_path error_msg w))
          (watcher_failed_folder wfolder @ [failed_name t1 file_path]) = Some c"
      using watcher_paths_neq(1)[of wfolder t1 file_path]
        failed_name_neq(1)[of "watcher_failed_folder wfolder" t1 file_path]
      by (simp add: o)
    have b2: "map_of (files (move_to_failed_watcher wfolder file_path error_msg w)) file_path = None"
      using n by (simp add: o)
    obtain old where f: "map_of (files (move_to_failed_watcher wfolder file_path error_msg w)) =
     ((map_of (files w))
        (watcher_failed_folder wfolder @ [failed_name t1 file_path] \<mapsto> c,
         file_path := None))
       (watcher_log_file wfolder \<mapsto>
          TextFile (old @ pystr_of ''['' @ strftime_iso t2 @ pystr_of ''] '' @
            (pystr_of ''Failed file moved to '' @
              join_path (watcher_failed_folder wfolder @ [failed_name t1 file_path])) @
            pystr_of '': '' @ error_msg @ [10]))"
      using move_to_failed_watcher_files[OF assms l n, of error_msg, folded t1_def t2_def] by blast
    define logtext where "logtext = old @ pystr_of ''['' @ strftime_iso t2 @ pystr_of ''] '' @
            (pystr_of ''Failed file moved to '' @
              join_path (watcher_failed_folder wfolder @ [failed_name t1 file_path])) @
            pystr_of '': '' @ error_msg @ [10]"
    have s1: "sublist error_msg logtext" unfolding logtext_def sublist_def by (metis append.assoc)
    have s2: "sublist (strftime_iso t2) logtext" unfolding logtext_def by (rule sublist_second)
    have b3: "\<exists>txt. map_of (files (move_to_failed_watcher wfolder file_path error_msg w))
                 (watcher_log_file wfolder) = Some (TextFile txt) \<and>
               sublist error_msg txt \<and> sublist (strftime_iso t2) txt"
      using f s1 s2 by (auto simp: logtext_def)
    have b4: "map_of (files (move_to_failed_watcher wfolder file_path error_msg w))
          (watcher_failed_folder wfolder @ [failed_name t1 file_path @ pystr_of ''.error'']) =
        map_of (files w)
          (watcher_failed_folder wfolder @ [failed_name t1 file_path @ pystr_of ''.error''])"
      using watcher_paths_neq(2)[of wfolder t1 file_path]
        failed_name_neq(2,3)[of "watcher_failed_folder wfolder" t1 file_path]
      by (simp add: o)
    show ?thesis using b1 b2 b3 b4 by blast
  qed
  show ?thesis
    unfolding t1_def[symmetric] t2_def[symmetric] fn fne
    using a1 a2 a3 a3' a4 a5 b by blast
qed


lemma example_ct_file:
  "map_of (files example_world) (example_plan_path @ [pystr_of ''CT.1.dcm'']) =
     Some (DicomFile (example_dataset ''CT''))"
  by (simp add: example_world_def example_fs_def example_plan_path_def pystr_of_def)

lemma example_failed_names:
  "strftime_compact (clock example_world (ticks example_world)) @ pystr_of ''_'' @
     basename (example_plan_path @ [pystr_of ''CT.1.dcm'']) = pystr_of ''20250309_070501_CT.1.dcm''"
  "strftime_compact (clock example_world (ticks example_world)) @ pystr_of ''_'' @
     basename (example_plan_path @ [pystr_of ''CT.1.dcm'']) @ pystr_of ''.error'' =
     pystr_of ''20250309_070501_CT.1.dcm.error''"
  "clock example_world (Suc (ticks example_world)) = example_time"
  by (simp_all add: example_world_def example_clock_def example_time_def strftime_compact_def
      four_digits_def two_digits_def basename_def pystr_of_def)

theorem quarantine_relocates_and_records_witness:
  "map_of (files example_world) (example_plan_path @ [pystr_of ''CT.1.dcm'']) =
     Some (DicomFile (example_dataset ''CT'')) \<and>
   map_of (files (move_to_failed example_failed_folder (example_plan_path @ [pystr_of ''CT.1.dcm''])
                    (pystr_of ''Lesefehler'') example_world))
     (example_failed_folder @ [pystr_of ''20250309_070501_CT.1.dcm'']) =
     Some (DicomFile (example_dataset ''CT'')) \<and>
   map_of (files (move_to_failed example_failed_folder (example_plan_path @ [pystr_of ''CT.1.dcm''])
                    (pystr_of ''Lesefehler'') example_world))
     (example_failed_folder @ [pystr_of ''20250309_070501_CT.1.dcm.error'']) =
     Some (TextFile (error_text (pystr_of ''Lesefehler'')
                       (example_plan_path @ [pystr_of ''CT.1.dcm'']) example_time)) \<and>
   map_of (files (move_to_failed example_failed_folder (example_plan_path @ [pystr_of ''CT.1.dcm''])
                    (pystr_of ''Lesefehler'') example_world))
     (example_plan_path @ [pystr_of ''CT.1.dcm'']) = None"
  using quarantine_relocates_and_records [OF example_ct_file, of example_failed_folder
      "pystr_of ''Lesefehler''" example_watch_folder]
    example_ct_file
  by (simp add: example_failed_names)

lemma example_log_absent:
  "map_of (files example_world) (watcher_log_file example_watch_folder) = None"
  "example_plan_path @ [pystr_of ''CT.1.dcm''] \<noteq> watcher_log_file example_watch_folder"
  "watcher_failed_folder example_watch_folder = example_failed_folder"
  by (simp_all add: example_world_def example_fs_def example_plan_path_def pystr_of_def
      watcher_log_file_def watcher_failed_folder_def example_watch_folder_def
      example_failed_folder_def)

text \<open>
  Claim C8, as stated, fails on the quarantine path of the folder watcher: after
  \<open>move_to_failed_watcher\<close> the file lies in the failed folder under its time-stamped
  name, and no file with that name and the ending \<^verbatim>\<open>.error\<close> exists.
\<close>

theorem watcher_quarantine_without_error_file:
  "map_of (files (move_to_failed_watcher example_watch_folder
             (example_plan_path @ [pystr_of ''CT.1.dcm'']) (pystr_of ''Failed to send'') example_world))
     (example_failed_folder @ [pystr_of ''20250309_070501_CT.1.dcm'']) =
     Some (DicomFile (example_dataset ''CT'')) \<and>
   map_of (files (move_to_failed_watcher example_watch_folder
             (example_plan_path @ [pystr_of ''CT.1.dcm'']) (pystr_of ''Failed to send'') example_world))
     (example_failed_folder @ [pystr_of ''20250309_070501_CT.1.dcm.error'']) = None"
proof -
  have l: "map_of (files example_world) (watcher_log_file example_watch_folder) = None \<or>
     (\<exists>old. map_of (files example_world) (watcher_log_file example_watch_folder) = Some (TextFile old))"
    using example_log_absent(1) by simp
  have q1: "example_failed_folder @ [pystr_of ''20250309_070501_CT.1.dcm''] \<noteq>
      watcher_log_file example_watch_folder"
    "example_failed_folder @ [pystr_of ''20250309_070501_CT.1.dcm.error''] \<noteq>
      watcher_log_file example_watch_folder"
    by (simp_all add: watcher_log_file_def watcher_failed_folder_def pystr_of_def
        example_failed_folder_def example_watch_folder_def)
  have fn: "failed_name (clock example_world (ticks example_world))
      (example_plan_path @ [pystr_of ''CT.1.dcm'']) = pystr_of ''20250309_070501_CT.1.dcm''"
    using example_failed_names(1) by (simp add: failed_name_def)
  have e: "map_of (files example_world)
      (example_failed_folder @ [pystr_of ''20250309_070501_CT.1.dcm.error'']) = None"
    by (simp add: example_world_def example_fs_def example_plan_path_def pystr_of_def
        example_failed_folder_def)
  have ne: "example_failed_folder @ [pystr_of ''20250309_070501_CT.1.dcm.error''] \<noteq>
      example_failed_folder @ [pystr_of ''20250309_070501_CT.1.dcm'']"
    "example_failed_folder @ [pystr_of ''20250309_070501_CT.1.dcm''] \<noteq>
      example_plan_path @ [pystr_of ''CT.1.dcm'']"
    "example_failed_folder @ [pystr_of ''20250309_070501_CT.1.dcm.error''] \<noteq>
      example_plan_path @ [pystr_of ''CT.1.dcm'']"
    by (simp_all add: pystr_of_def)
  show ?thesis
    using move_to_failed_watcher_other[OF example_ct_file l example_log_absent(2) q1(1),
        of "pystr_of ''Failed to send''"]
      move_to_failed_watcher_other[OF example_ct_file l example_log_absent(2) q1(2),
        of "pystr_of ''Failed to send''"]
      e ne
    by (simp add: fn example_log_absent(3))
qed

section \<open>Deleting after sending\<close>

lemma length_filter_all: "length (filter P xs) = length xs \<longleftrightarrow> (\<forall>x\<in>set xs. P x)"
proof (induction xs)
  case Nil
  then show ?case by simp
next
  case (Cons x xs)
  show ?case
  proof (cases "P x")
    case True
    then show ?thesis using Cons.IH by simp
  next
    case False
    have "length (filter P xs) \<le> length xs" by (rule length_filter_le)
    then have "length (filter P xs) \<noteq> Suc (length xs)" by arith
    then show ?thesis using False by simp
  qed
qed

lemma send_files_to_node_all:
  assumes "send_files_to_node net fs file_list" and "p \<in> set file_list"
  shows "send_c_store net p = Status 0"
proof -
  have "length (filter (sent_ok net fs) file_list) = length file_list"
    using assms(1)
    by (auto simp: send_files_to_node_def split: if_splits assoc_result.splits)
  then have "sent_ok net fs p" using assms(2) by (simp add: length_filter_all)
  then show ?thesis by (cases "dcmread_force fs p") (simp_all add: sent_ok_def)
qed

lemma set_sort_files: "set (sort_files_by_modality attr fs xs) = set xs"
  by (simp add: sort_files_by_modality_def Let_def)

text \<open>
  Claim C3, amended: \<open>send_plan_to_node\<close>, the method that a call reaches, deletes
  nothing of a plan folder unless every file of the batch was sent with status 0x0000.
  When one file of the folder is answered otherwise, the call with \<open>delete_after\<close>
  returns \<open>False\<close> and leaves the world as it was; and whenever the call changes the
  world, \<open>delete_after\<close> was set, the call succeeded and every file had status 0x0000.
\<close>

theorem send_plan_to_node_all_or_nothing:
  "(p \<in> set (walk_dcm (files w) plan_path) \<and> send_c_store net p \<noteq> Status 0 \<longrightarrow>
      send_plan_to_node attr net plan_path True w = (False, w)) \<and>
   (snd (send_plan_to_node attr net plan_path delete_after w) \<noteq> w \<longrightarrow>
      delete_after \<and> fst (send_plan_to_node attr net plan_path delete_after w) \<and>
      (\<forall>q\<in>set (walk_dcm (files w) plan_path). send_c_store net q = Status 0))"
proof -
  define batch where "batch = sort_files_by_modality attr (files w) (walk_dcm (files w) plan_path)"
  have sb: "set batch = set (walk_dcm (files w) plan_path)"
    by (simp add: batch_def set_sort_files)
  have ok: "\<forall>q\<in>set (walk_dcm (files w) plan_path). send_c_store net q = Status 0"
    if "send_files_to_node net (files w) batch"
    using send_files_to_node_all[OF that] sb by blast
  have 1: "send_plan_to_node attr net plan_path True w = (False, w)"
    if "p \<in> set (walk_dcm (files w) plan_path)" "send_c_store net p \<noteq> Status 0"
  proof -
    have "\<not> send_files_to_node net (files w) batch" using ok that by blast
    then show ?thesis
      by (simp add: send_plan_to_node_def Let_def batch_def)
  qed
  have 2: "delete_after \<and> fst (send_plan_to_node attr net plan_path delete_after w) \<and>
      (\<forall>q\<in>set (walk_dcm (files w) plan_path). send_c_store net q = Status 0)"
    if "snd (send_plan_to_node attr net plan_path delete_after w) \<noteq> w"
    using that ok
    by (auto simp: send_plan_to_node_def Let_def batch_def split: if_splits)
  show ?thesis using 1 2 by blast
qed


text \<open>The definitions that evaluating the example batch unfolds.\<close>

lemmas send_eval = example_batch_pairs_def example_net_def example_answers_def example_world_def
  example_fs_def example_plan_path_def example_dataset_def path_exists_def os_remove_def
  fs_write_def basename_def pystr_of_def

lemma example_send_loop:
  "send_loop example_net True example_batch_pairs example_world =
     (2, [(example_plan_path @ [pystr_of ''RTPLAN_Head.dcm''],
           pystr_of ''Fehler beim Senden: RTPLAN_Head.dcm - Status: 42752'')],
      example_world\<lparr>files := [(example_plan_path @ [pystr_of ''RTPLAN_Head.dcm''],
                                 DicomFile (example_dataset ''RTPLAN''))]\<rparr>)"
  by (simp add: send_eval decimal.simps)


text \<open>
  Claim C3, as stated, fails on \<open>send_all_dicom_files\<close>: with \<open>delete_after\<close> set and
  a batch of CT, RTPLAN and RTDOSE in which the plan is answered with 0xA700, the
  call returns \<open>False\<close>, yet the CT file, sent before the failure, is deleted: after
  the call the disk holds only the quarantined plan and its error file.
\<close>

theorem send_all_deletes_before_failure:
  "send_c_store example_net (example_plan_path @ [pystr_of ''RTPLAN_Head.dcm'']) = Status 0xA700 \<and>
   map_of (files example_world) (example_plan_path @ [pystr_of ''CT.1.dcm'']) =
     Some (DicomFile (example_dataset ''CT'')) \<and>
   fst (send_all_dicom_files example_net example_failed_folder (pystr_of ''ORG'')
          example_batch_pairs True example_world) = False \<and>
   map fst (files (snd (send_all_dicom_files example_net example_failed_folder (pystr_of ''ORG'')
          example_batch_pairs True example_world))) =
     [example_failed_folder @ [pystr_of ''20250309_070501_RTPLAN_Head.dcm''],
      example_failed_folder @ [pystr_of ''20250309_070501_RTPLAN_Head.dcm.error'']] \<and>
   map_of (files (snd (send_all_dicom_files example_net example_failed_folder (pystr_of ''ORG'')
          example_batch_pairs True example_world)))
     (example_plan_path @ [pystr_of ''CT.1.dcm'']) = None"
proof -
  have a: "send_c_store example_net (example_plan_path @ [pystr_of ''RTPLAN_Head.dcm'']) = Status 0xA700"
    by (simp add: example_net_def example_answers_def)
  have b: "map_of (files example_world) (example_plan_path @ [pystr_of ''CT.1.dcm'']) =
     Some (DicomFile (example_dataset ''CT''))"
    by (simp add: example_world_def example_fs_def example_plan_path_def pystr_of_def)
  have n: "example_batch_pairs \<noteq> []" "associate example_net = Established"
    "length example_batch_pairs = 3"
    by (simp_all add: example_batch_pairs_def example_net_def)
  have r: "send_all_dicom_files example_net example_failed_folder (pystr_of ''ORG'')
          example_batch_pairs True example_world =
     (False, move_to_failed example_failed_folder (example_plan_path @ [pystr_of ''RTPLAN_Head.dcm''])
        (pystr_of ''Fehler beim Senden: RTPLAN_Head.dcm - Status: 42752'')
        (example_world\<lparr>files := [(example_plan_path @ [pystr_of ''RTPLAN_Head.dcm''],
                                 DicomFile (example_dataset ''RTPLAN''))]\<rparr>))"
    by (simp add: send_all_dicom_files_def n example_send_loop)
  have f: "files (move_to_failed example_failed_folder (example_plan_path @ [pystr_of ''RTPLAN_Head.dcm''])
        (pystr_of ''Fehler beim Senden: RTPLAN_Head.dcm - Status: 42752'')
        (example_world\<lparr>files := [(example_plan_path @ [pystr_of ''RTPLAN_Head.dcm''],
                                 DicomFile (example_dataset ''RTPLAN''))]\<rparr>)) =
     [(example_failed_folder @ [pystr_of ''20250309_070501_RTPLAN_Head.dcm''],
         DicomFile (example_dataset ''RTPLAN'')),
      (example_failed_folder @ [pystr_of ''20250309_070501_RTPLAN_Head.dcm.error''],
         TextFile (error_text (pystr_of ''Fehler beim Senden: RTPLAN_Head.dcm - Status: 42752'')
           (example_plan_path @ [pystr_of ''RTPLAN_Head.dcm'']) example_time))]"
    by (simp add: move_to_failed_def now_def Let_def failed_name_def strftime_compact_def
        four_digits_def two_digits_def example_world_def example_clock_def example_time_def
        example_plan_path_def example_failed_folder_def basename_def pystr_of_def
        os_remove_def fs_write_def)
  have c: "example_failed_folder @ [pystr_of ''20250309_070501_RTPLAN_Head.dcm''] \<noteq>
      example_plan_path @ [pystr_of ''CT.1.dcm'']"
    "example_failed_folder @ [pystr_of ''20250309_070501_RTPLAN_Head.dcm.error''] \<noteq>
      example_plan_path @ [pystr_of ''CT.1.dcm'']"
    by (simp_all add: pystr_of_def)
  show ?thesis using a b c c[symmetric] by (simp add: r f)
qed

theorem send_plan_to_node_all_or_nothing_witness:
  "example_plan_path @ [pystr_of ''RTPLAN_Head.dcm''] \<in>
     set (walk_dcm (files example_world) example_plan_path) \<and>
   send_c_store example_net (example_plan_path @ [pystr_of ''RTPLAN_Head.dcm'']) \<noteq> Status 0 \<and>
   send_plan_to_node (Some modality_order_init) example_net example_plan_path True example_world =
     (False, example_world)"
proof -
  have a: "example_plan_path @ [pystr_of ''RTPLAN_Head.dcm''] \<in>
     set (walk_dcm (files example_world) example_plan_path)"
    by (simp add: walk_dcm_def example_world_def example_fs_def example_plan_path_def
        is_dcm_name_def ascii_lower_def pystr_of_def strict_prefix_def suffix_def)
  have b: "send_c_store example_net (example_plan_path @ [pystr_of ''RTPLAN_Head.dcm'']) \<noteq> Status 0"
    by (simp add: example_net_def example_answers_def)
  note t = send_plan_to_node_all_or_nothing [of "example_plan_path @ [pystr_of ''RTPLAN_Head.dcm'']"
        example_world example_plan_path example_net "Some modality_order_init" True, THEN conjunct1]
  show ?thesis using a b t by blast
qed

section \<open>Received files without a plan\<close>

lemmas receive_eval = handle_store_def flush_buffer_def group_and_move_received_files_def
  read_received_def plan_files_of_def ct_files_of_def structure_files_of_def other_files_of_def
  has_modality_def modality_or_def temp_file_path_def os_path_join_def staged_content_def
  buffer_key_of_def
  patient_id_of_def study_uid_of_def attr_or_def ensure_uids_def example_dataset_def
  empty_station_def example_temp_dir_def example_key_def
  dcmread_force_def fs_write_def os_remove_def path_exists_def remove_existing_def
  List.map_filter_def pystr_of_def Let_def

lemma stored_ct:
  "handle_store example_temp_dir example_ct_event empty_station =
     (0,
      \<lparr>disk = \<lparr>files = [([pystr_of ''tmp'', pystr_of ''dicom_receive_x1'', pystr_of ''P42_1.2.77'',
                           pystr_of ''CT_0123456789abcdef0123456789abcdef.dcm''],
                          DicomFile ((example_dataset ''CT'')
                            \<lparr>MediaStorageSOPInstanceUID := Some (pystr_of ''1.2.3''),
                             SourceApplicationEntityTitle := Some (pystr_of ''TR_SEND'')\<rparr>))],
                clock = example_clock, ticks = 0\<rparr>,
       receive_buffer =
         [(example_key, [[pystr_of ''tmp'', pystr_of ''dicom_receive_x1'', pystr_of ''P42_1.2.77'',
                          pystr_of ''CT_0123456789abcdef0123456789abcdef.dcm'']])]\<rparr>)"
  by (simp add: receive_eval example_ct_event_def)

text \<open>
  Claim C2 says that every file received over the wire or imported is, after
  processing, under the receive root, in a plan folder or in the orphan folder
  \<^verbatim>\<open>Unzugeordnet\<close> of its patient, or under \<^verbatim>\<open>failed/\<close>, and that a file attached to
  no plan is placed in the orphan folder rather than discarded. The receiver does
  otherwise: a station with an empty disk receives one CT image and no plan for it. The
  request is answered with status \<^verbatim>\<open>0x0000\<close> and the image is staged in the temporary
  folder; when its bucket is flushed, the grouper places nothing, its cleanup loop
  removes the staged file, and the disk is empty again: the image is in no plan folder,
  in no orphan folder and not under \<^verbatim>\<open>failed/\<close>.
\<close>

theorem received_orphan_is_deleted:
  "fst (handle_store example_temp_dir example_ct_event empty_station) = 0 \<and>
   map fst (files (disk (snd (handle_store example_temp_dir example_ct_event empty_station)))) =
     [[pystr_of ''tmp'', pystr_of ''dicom_receive_x1'', pystr_of ''P42_1.2.77'',
       pystr_of ''CT_0123456789abcdef0123456789abcdef.dcm'']] \<and>
   flush_buffer latin1_alnum example_watch_folder example_generate_uid example_key
     (snd (handle_store example_temp_dir example_ct_event empty_station)) =
     (empty_station, [])"
  by (simp add: stored_ct) (simp add: receive_eval example_watch_folder_def)

section \<open>Plan folders of patients whose IDs sanitize alike\<close>

lemmas sanitize_eval = sanitize_path_component_def py_replace_def re_sub_problematic_def
  py_strip_def keep_char_def is_word_def is_space_def latin1_alnum_def last_dot_segment_def
  patient_folder_name_def plan_folder_name_def plan_folder_of_def plan_name_of_def
  patient_name_of_def sop_instance_uid_of_def frame_ref_uid_of_def patient_id_of_def
  study_uid_of_def attr_or_def

lemmas example_import_defs = example_import_world_def example_plan_colon_def
  example_dose_colon_def example_plan_slash_def example_dataset_def example_import_folder_def
  example_shared_folder_def example_watch_folder_def example_failed_folder_def

lemma example_import_files:
  "files_below (files example_import_world) example_import_folder =
     [fst example_plan_colon, fst example_dose_colon, fst example_plan_slash]"
  by (simp add: files_below_def example_import_defs strict_prefix_def pystr_of_def)

lemma example_import_read:
  "read_import_files example_failed_folder
     [fst example_plan_colon, fst example_dose_colon, fst example_plan_slash] example_import_world =
     ([example_plan_colon, example_dose_colon, example_plan_slash], example_import_world)"
  by (simp add: example_import_defs dcmread_force_def is_dcm_name_def ascii_lower_def suffix_def
      pystr_of_def)

lemma example_import_lists:
  "plan_files_of [example_plan_colon, example_dose_colon, example_plan_slash] =
     [example_plan_colon, example_plan_slash]"
  "ct_files_of [example_plan_colon, example_dose_colon, example_plan_slash] = []"
  "structure_files_of [example_plan_colon, example_dose_colon, example_plan_slash] = []"
  "other_files_of [example_plan_colon, example_dose_colon, example_plan_slash] = [example_dose_colon]"
  by (simp_all add: plan_files_of_def ct_files_of_def structure_files_of_def other_files_of_def
      has_modality_def modality_or_def example_import_defs pystr_of_def)

lemma example_import_maps:
  "build_import_ref_maps [example_plan_colon, example_plan_slash] [example_dose_colon] [] []
     ([], []) =
     ([(pystr_of ''1.2.9'', [example_dose_colon]), (pystr_of ''1.2.3'', [])],
      [(pystr_of ''unknown'', [])])"
  by (simp add: example_import_defs dose_matches_def dose_ref_uid_def sanitize_eval
      pystr_of_def Let_def)

lemma example_plan_folders:
  "plan_folder_of latin1_alnum example_watch_folder (snd example_plan_colon) = example_shared_folder"
  "plan_folder_of latin1_alnum example_watch_folder (snd example_plan_slash) = example_shared_folder"
  "sanitize_path_component latin1_alnum (plan_name_of (snd example_plan_colon)) = pystr_of ''Head''"
  "sanitize_path_component latin1_alnum (plan_name_of (snd example_plan_slash)) = pystr_of ''Head''"
  by (simp_all add: sanitize_eval example_import_defs pystr_of_def)

lemmas import_step_eval = replace_by_copy_def remove_existing_def path_exists_def copy2_def
  fs_write_def os_remove_def with_files_def dose_matches_def dose_ref_uid_def lookup_ref_def
  sop_instance_uid_of_def patient_id_of_def frame_ref_uid_of_def attr_or_def
  example_import_defs pystr_of_def Let_def

lemma example_import_first_plan:
  "import_plan latin1_alnum example_watch_folder example_failed_folder
     ([(pystr_of ''1.2.9'', [example_dose_colon]), (pystr_of ''1.2.3'', [])],
      [(pystr_of ''unknown'', [])])
     example_plan_colon
     \<lparr>import_world = example_import_world, import_processed = 0, import_failed = 0,
      dose_copies = []\<rparr> =
   \<lparr>import_world =
      \<lparr>files = [(fst example_plan_colon, DicomFile (snd example_plan_colon)),
                (fst example_dose_colon, DicomFile (snd example_dose_colon)),
                (fst example_plan_slash, DicomFile (snd example_plan_slash)),
                (example_shared_folder @ [pystr_of ''RTPLAN_Head.dcm''],
                  DicomFile (snd example_plan_colon)),
                (example_shared_folder @ [pystr_of ''RTDOSE_Head.dcm''],
                  DicomFile (snd example_dose_colon))],
       clock = example_clock, ticks = 0\<rparr>,
    import_processed = 2, import_failed = 0,
    dose_copies = [(example_plan_colon, example_dose_colon)]\<rparr>"
  by (simp add: import_plan_def example_plan_folders) (simp add: import_step_eval)

lemma example_import_second_plan:
  "import_plan latin1_alnum example_watch_folder example_failed_folder
     ([(pystr_of ''1.2.9'', [example_dose_colon]), (pystr_of ''1.2.3'', [])],
      [(pystr_of ''unknown'', [])])
     example_plan_slash
     \<lparr>import_world =
        \<lparr>files = [(fst example_plan_colon, DicomFile (snd example_plan_colon)),
                  (fst example_dose_colon, DicomFile (snd example_dose_colon)),
                  (fst example_plan_slash, DicomFile (snd example_plan_slash)),
                  (example_shared_folder @ [pystr_of ''RTPLAN_Head.dcm''],
                    DicomFile (snd example_plan_colon)),
                  (example_shared_folder @ [pystr_of ''RTDOSE_Head.dcm''],
                    DicomFile (snd example_dose_colon))],
         clock = example_clock, ticks = 0\<rparr>,
      import_processed = 2, import_failed = 0,
      dose_copies = [(example_plan_colon, example_dose_colon)]\<rparr> =
   \<lparr>import_world =
      \<lparr>files = [(fst example_plan_colon, DicomFile (snd example_plan_colon)),
                (fst example_dose_colon, DicomFile (snd example_dose_colon)),
                (fst example_plan_slash, DicomFile (snd example_plan_slash)),
                (example_shared_folder @ [pystr_of ''RTDOSE_Head.dcm''],
                  DicomFile (snd example_dose_colon)),
                (example_shared_folder @ [pystr_of ''RTPLAN_Head.dcm''],
                  DicomFile (snd example_plan_slash))],
       clock = example_clock, ticks = 0\<rparr>,
    import_processed = 3, import_failed = 0,
    dose_copies = [(example_plan_colon, example_dose_colon)]\<rparr>"
  by (simp add: import_plan_def example_plan_folders) (simp add: import_step_eval)

lemma example_orphan_dest:
  "orphan_dest latin1_alnum example_watch_folder (snd example_dose_colon) =
     [pystr_of ''received'', pystr_of ''Doe (P-1)'', pystr_of ''Unzugeordnet_77'',
      pystr_of ''RTDOSE_Unzugeordnet.dcm'']"
  by (simp add: orphan_dest_def fallback_plan_name_def modality_or_def sanitize_eval
      example_import_defs pystr_of_def Let_def)

lemma example_import_orphan:
  "import_orphan latin1_alnum example_watch_folder example_failed_folder example_dose_colon
     \<lparr>import_world =
        \<lparr>files = [(fst example_plan_colon, DicomFile (snd example_plan_colon)),
                  (fst example_dose_colon, DicomFile (snd example_dose_colon)),
                  (fst example_plan_slash, DicomFile (snd example_plan_slash)),
                  (example_shared_folder @ [pystr_of ''RTDOSE_Head.dcm''],
                    DicomFile (snd example_dose_colon)),
                  (example_shared_folder @ [pystr_of ''RTPLAN_Head.dcm''],
                    DicomFile (snd example_plan_slash))],
         clock = example_clock, ticks = 0\<rparr>,
      import_processed = 3, import_failed = 0,
      dose_copies = [(example_plan_colon, example_dose_colon)]\<rparr> =
   \<lparr>import_world =
      \<lparr>files = [(fst example_plan_colon, DicomFile (snd example_plan_colon)),
                (fst example_dose_colon, DicomFile (snd example_dose_colon)),
                (fst example_plan_slash, DicomFile (snd example_plan_slash)),
                (example_shared_folder @ [pystr_of ''RTDOSE_Head.dcm''],
                  DicomFile (snd example_dose_colon)),
                (example_shared_folder @ [pystr_of ''RTPLAN_Head.dcm''],
                  DicomFile (snd example_plan_slash)),
                ([pystr_of ''received'', pystr_of ''Doe (P-1)'', pystr_of ''Unzugeordnet_77'',
                  pystr_of ''RTDOSE_Unzugeordnet.dcm''],
                  DicomFile (snd example_dose_colon))],
       clock = example_clock, ticks = 0\<rparr>,
    import_processed = 4, import_failed = 0,
    dose_copies = [(example_plan_colon, example_dose_colon)]\<rparr>"
  by (simp add: import_orphan_def example_orphan_dest) (simp add: import_step_eval)

text \<open>
  Claim C1 says that a dose file is placed into the plan folder of a plan only if the
  first item of its \<^verbatim>\<open>ReferencedRTPlanSequence\<close> refers to the SOP instance UID of the
  plan and its patient ID equals that of the plan. The importer tests both before it
  copies a dose, but it names the plan folder from the sanitized patient name and
  patient ID, the sanitized plan label and the last segment of the study UID, and the
  sanitizer maps both \<^verbatim>\<open>P:1\<close> and \<^verbatim>\<open>P/1\<close> to \<^verbatim>\<open>P-1\<close>. On the import folder with
  the plan and the dose of patient \<^verbatim>\<open>P:1\<close> and the plan of patient \<^verbatim>\<open>P/1\<close>, the run
  ends with the dose of \<^verbatim>\<open>P:1\<close> and the plan of \<^verbatim>\<open>P/1\<close> in one folder, which is the
  plan folder of the plan of \<^verbatim>\<open>P/1\<close>: the patient IDs differ, and the dose does not
  refer to that plan.
\<close>

theorem import_mixes_patients_in_one_folder:
  "process_import_folder latin1_alnum example_watch_folder example_failed_folder
     example_import_folder example_import_world =
     (Inr (True, 4),
      \<lparr>files = [(example_shared_folder @ [pystr_of ''RTDOSE_Head.dcm''],
                  DicomFile (snd example_dose_colon)),
                (example_shared_folder @ [pystr_of ''RTPLAN_Head.dcm''],
                  DicomFile (snd example_plan_slash)),
                ([pystr_of ''received'', pystr_of ''Doe (P-1)'', pystr_of ''Unzugeordnet_77'',
                  pystr_of ''RTDOSE_Unzugeordnet.dcm''],
                  DicomFile (snd example_dose_colon))],
       clock = example_clock, ticks = 0\<rparr>,
      [(example_plan_colon, example_dose_colon)]) \<and>
   plan_folder_of latin1_alnum example_watch_folder (snd example_plan_slash) =
     example_shared_folder \<and>
   patient_id_of (snd example_plan_slash) = pystr_of ''P/1'' \<and>
   patient_id_of (snd example_dose_colon) = pystr_of ''P:1'' \<and>
   patient_id_of (snd example_dose_colon) \<noteq> patient_id_of (snd example_plan_slash) \<and>
   dose_ref_uid (snd example_dose_colon) \<noteq>
     Some (sop_instance_uid_of (snd example_plan_slash))"
proof -
  have run: "process_import_folder latin1_alnum example_watch_folder example_failed_folder
     example_import_folder example_import_world =
     (Inr (True, 4),
      \<lparr>files = [(example_shared_folder @ [pystr_of ''RTDOSE_Head.dcm''],
                  DicomFile (snd example_dose_colon)),
                (example_shared_folder @ [pystr_of ''RTPLAN_Head.dcm''],
                  DicomFile (snd example_plan_slash)),
                ([pystr_of ''received'', pystr_of ''Doe (P-1)'', pystr_of ''Unzugeordnet_77'',
                  pystr_of ''RTDOSE_Unzugeordnet.dcm''],
                  DicomFile (snd example_dose_colon))],
       clock = example_clock, ticks = 0\<rparr>,
      [(example_plan_colon, example_dose_colon)])"
    by (simp add: process_import_folder_def example_import_files example_import_read
          example_import_lists example_import_maps example_import_first_plan
          example_import_second_plan orphaned_files_of_def example_import_orphan
          del: read_import_files.simps)
       (simp add: clear_import_folder_def example_import_defs strict_prefix_def pystr_of_def)
  have ids: "patient_id_of (snd example_plan_slash) = pystr_of ''P/1''"
    "patient_id_of (snd example_dose_colon) = pystr_of ''P:1''"
    "patient_id_of (snd example_dose_colon) \<noteq> patient_id_of (snd example_plan_slash)"
    "dose_ref_uid (snd example_dose_colon) \<noteq> Some (sop_instance_uid_of (snd example_plan_slash))"
    by (simp_all add: patient_id_of_def sop_instance_uid_of_def attr_or_def dose_ref_uid_def
        example_import_defs pystr_of_def)
  from run example_plan_folders(2) ids show ?thesis by simp
qed

end
